theory Spec2Isabelle
  imports Complex_Main "HOL-Library.Word"
begin

section \<open>PKCE generator\<close>

text \<open>
  Strings are byte strings (\<open>char list\<close>, read as UTF-8); a byte array
  (\<open>Uint8Array\<close>, a CryptoJS \<open>WordArray\<close>) is a list of 8-bit words.
\<close>

type_synonym byte = "8 word"

subsection \<open>\<open>generateRandomString\<close> (App.tsx)\<close>

definition possible :: string where
  "possible = ''ABCDEFGHIJKLMNOPQRSTUVWXYZabcdefghijklmnopqrstuvwxyz0123456789''"

text \<open>\<open>String.prototype.charAt\<close>: the empty string when the position is out of range.\<close>

definition charAt :: "string \<Rightarrow> int \<Rightarrow> string" where
  "charAt s i = (if 0 \<le> i \<and> i < int (length s) then [s ! nat i] else [])"

text \<open>
  The \<open>for\<close> loop of \<open>generateRandomString\<close>, with the loop variable \<open>i\<close> and the
  accumulator \<open>text\<close>. \<open>rnd k\<close> is the value of the \<open>k\<close>-th call of \<open>Math.random()\<close>
  (a number in \<open>[0, 1)\<close>).
\<close>

function generateRandomString_loop :: "(nat \<Rightarrow> real) \<Rightarrow> nat \<Rightarrow> nat \<Rightarrow> string \<Rightarrow> string" where
  "generateRandomString_loop rnd len i text =
     (if i < len
      then generateRandomString_loop rnd len (Suc i)
             (text @ charAt possible \<lfloor>rnd i * real (length possible)\<rfloor>)
      else text)"
  by pat_completeness auto
termination
  by (relation "measure (\<lambda>(rnd, len, i, text). len - i)") auto

declare generateRandomString_loop.simps [simp del]

definition generateRandomString :: "(nat \<Rightarrow> real) \<Rightarrow> nat \<Rightarrow> string" where
  "generateRandomString rnd len = generateRandomString_loop rnd len 0 []"

text \<open>The verifier that \<open>handleLogin\<close> creates: \<open>generateRandomString(128)\<close>.\<close>

definition handleLogin_verifier :: "(nat \<Rightarrow> real) \<Rightarrow> string" where
  "handleLogin_verifier rnd = generateRandomString rnd 128"

subsection \<open>\<open>generateCodeVerifier\<close> (utils/spotify.ts)\<close>

text \<open>
  \<open>CryptoJS.lib.WordArray.random(n)\<close> draws \<open>n\<close> random bytes; \<open>rbytes k\<close> is the
  \<open>k\<close>-th byte of the random source. \<open>toString()\<close> of a word array is its
  lower-case hexadecimal encoding, two digits for each byte.
\<close>

definition WordArray_random :: "(nat \<Rightarrow> byte) \<Rightarrow> nat \<Rightarrow> byte list" where
  "WordArray_random rbytes n = map rbytes [0..<n]"

definition hex_digits :: string where
  "hex_digits = ''0123456789abcdef''"

definition hex_of_byte :: "byte \<Rightarrow> string" where
  "hex_of_byte b = [hex_digits ! (unat b div 16), hex_digits ! (unat b mod 16)]"

definition hex_stringify :: "byte list \<Rightarrow> string" where
  "hex_stringify bs = concat (map hex_of_byte bs)"

text \<open>
  \<open>generateCodeVerifier\<close> returns the verifier and stores it under the key
  \<open>code_verifier\<close> of \<open>localStorage\<close> (a map from keys to values).
\<close>

definition generateCodeVerifier ::
  "(nat \<Rightarrow> byte) \<Rightarrow> (string \<rightharpoonup> string) \<Rightarrow> string \<times> (string \<rightharpoonup> string)" where
  "generateCodeVerifier rbytes localStorage =
     (let codeVerifier = hex_stringify (WordArray_random rbytes 32)
      in (codeVerifier, localStorage(''code_verifier'' \<mapsto> codeVerifier)))"

subsection \<open>\<open>generateCodeChallenge\<close>\<close>

definition b64_std :: string where
  "b64_std = ''ABCDEFGHIJKLMNOPQRSTUVWXYZabcdefghijklmnopqrstuvwxyz0123456789+/''"

definition b64_url :: string where
  "b64_url = ''ABCDEFGHIJKLMNOPQRSTUVWXYZabcdefghijklmnopqrstuvwxyz0123456789-_''"

text \<open>
  Base64 (RFC 4648) over an alphabet of 64 characters, with or without the \<open>=\<close>
  padding: three bytes give four characters, a rest of two bytes gives three, a rest of
  one byte gives two.
\<close>

fun base64_encode :: "string \<Rightarrow> bool \<Rightarrow> byte list \<Rightarrow> string" where
  "base64_encode abc pad (a # b # c # rest) =
     [abc ! (unat a div 4),
      abc ! (unat a mod 4 * 16 + unat b div 16),
      abc ! (unat b mod 16 * 4 + unat c div 64),
      abc ! (unat c mod 64)] @ base64_encode abc pad rest"
| "base64_encode abc pad [a, b] =
     [abc ! (unat a div 4),
      abc ! (unat a mod 4 * 16 + unat b div 16),
      abc ! (unat b mod 16 * 4)] @ (if pad then ''='' else [])"
| "base64_encode abc pad [a] =
     [abc ! (unat a div 4),
      abc ! (unat a mod 4 * 16)] @ (if pad then ''=='' else [])"
| "base64_encode abc pad [] = []"

text \<open>
  \<open>btoa(String.fromCharCode(...bytes))\<close> in App.tsx and
  \<open>toString(CryptoJS.enc.Base64)\<close> in utils/spotify.ts: the standard alphabet, padded.
\<close>

definition btoa :: "byte list \<Rightarrow> string" where
  "btoa bs = base64_encode b64_std True bs"

text \<open>\<open>TextEncoder.encode\<close>: the UTF-8 bytes of the string.\<close>

definition encode_utf8 :: "string \<Rightarrow> byte list" where
  "encode_utf8 s = map of_char s"

text \<open>\<open>s.replace(/c/g, d)\<close> for a single character \<open>c\<close>.\<close>

definition replace_all :: "char \<Rightarrow> char \<Rightarrow> string \<Rightarrow> string" where
  "replace_all c d s = map (\<lambda>x. if x = c then d else x) s"

text \<open>What the two replacements of \<open>generateCodeChallenge\<close>, one after the other, make of
  a character.\<close>

definition url_char :: "char \<Rightarrow> char" where
  "url_char x =
     (if (if x = CHR ''+'' then CHR ''-'' else x) = CHR ''/'' then CHR ''_''
      else (if x = CHR ''+'' then CHR ''-'' else x))"

text \<open>\<open>s.replace(/=+$/, '')\<close>: the run of \<open>=\<close> at the end of the string is removed.\<close>

definition strip_trailing_eq :: "string \<Rightarrow> string" where
  "strip_trailing_eq s = rev (dropWhile (\<lambda>x. x = CHR ''='') (rev s))"

text \<open>
  \<open>generateCodeChallenge\<close> of App.tsx. The SHA-256 digest comes from the platform
  (\<open>window.crypto.subtle.digest\<close>); it is the parameter \<open>sha256\<close>.
\<close>

definition generateCodeChallenge :: "(byte list \<Rightarrow> byte list) \<Rightarrow> string \<Rightarrow> string" where
  "generateCodeChallenge sha256 verifier =
     (let data = encode_utf8 verifier;
          digest = sha256 data;
          base64 = btoa digest
      in strip_trailing_eq (replace_all (CHR ''/'') (CHR ''_'') (replace_all (CHR ''+'') (CHR ''-'') base64)))"

text \<open>
  \<open>generateCodeChallenge\<close> of utils/spotify.ts: \<open>CryptoJS.SHA256\<close> hashes the UTF-8
  bytes of its string argument, and the digest is printed with \<open>CryptoJS.enc.Base64\<close>.
\<close>

definition generateCodeChallenge_spotify :: "(byte list \<Rightarrow> byte list) \<Rightarrow> string \<Rightarrow> string" where
  "generateCodeChallenge_spotify sha256 codeVerifier =
     strip_trailing_eq
       (replace_all (CHR ''/'') (CHR ''_'')
         (replace_all (CHR ''+'') (CHR ''-'') (btoa (sha256 (encode_utf8 codeVerifier)))))"

text \<open>
  The encoding the specification names: URL-safe Base64 (RFC 4648, section 5) with the
  padding left out.
\<close>

definition base64url :: "byte list \<Rightarrow> string" where
  "base64url bs = base64_encode b64_url False bs"

text \<open>The URL-safe characters: the unreserved characters of RFC 3986.\<close>

definition url_safe :: "char \<Rightarrow> bool" where
  "url_safe c = (c \<in> set (possible @ ''-._~''))"

definition ends_with :: "char \<Rightarrow> string \<Rightarrow> bool" where
  "ends_with c s = (case rev s of [] \<Rightarrow> False | x # _ \<Rightarrow> x = c)"

section \<open>JavaScript values\<close>

text \<open>
  The values that cross the HTTP boundary as JSON, with \<open>undefined\<close> added. The type
  \<open>'n\<close> is the platform's type of numbers. The code never looks inside a number: it
  hands numbers to the operations of the platform, which are collected in the record
  \<open>numbers\<close> below and are a parameter of everything that follows. An object is the
  list of its properties, each key once.
\<close>

datatype 'n jsval =
    JUndefined
  | JNull
  | JBool bool
  | JNum 'n
  | JStr string
  | JArr "'n jsval list"
  | JObj "(string \<times> 'n jsval) list"

text \<open>
  The operations on numbers that the code uses: a number from an integer literal or
  from the integer that \<open>Date.now()\<close> returns, \<open>NaN\<close>, falsiness (\<open>0\<close> and \<open>NaN\<close>),
  \<open>String(n)\<close>, \<open>Number(s)\<close>, \<open>parseInt(s)\<close>, \<open>a * b\<close>, \<open>a + b\<close> and \<open>a > b\<close>.
\<close>

record 'n numbers =
  num_lit :: "int \<Rightarrow> 'n"
  num_NaN :: 'n
  num_falsy :: "'n \<Rightarrow> bool"
  num_toString :: "'n \<Rightarrow> string"
  num_ofString :: "string \<Rightarrow> 'n"
  num_parseInt :: "string \<Rightarrow> 'n"
  num_mul :: "'n \<Rightarrow> 'n \<Rightarrow> 'n"
  num_add :: "'n \<Rightarrow> 'n \<Rightarrow> 'n"
  num_gt :: "'n \<Rightarrow> 'n \<Rightarrow> bool"

text \<open>Truthiness, as \<open>if (v)\<close>, \<open>!v\<close> and \<open>a || b\<close> read a value.\<close>

fun truthy :: "'n numbers \<Rightarrow> 'n jsval \<Rightarrow> bool" where
  "truthy N JUndefined = False"
| "truthy N JNull = False"
| "truthy N (JBool b) = b"
| "truthy N (JNum n) = (\<not> num_falsy N n)"
| "truthy N (JStr s) = (s \<noteq> [])"
| "truthy N (JArr xs) = True"
| "truthy N (JObj kvs) = True"

text \<open>
  A value that is a string or missing (\<open>string | null\<close>, \<open>string | undefined\<close>):
  \<open>None\<close> and the empty string are falsy.
\<close>

fun truthy_str :: "string option \<Rightarrow> bool" where
  "truthy_str None = False"
| "truthy_str (Some s) = (s \<noteq> [])"

text \<open>\<open>a || b\<close>\<close>

definition js_or :: "'n numbers \<Rightarrow> 'n jsval \<Rightarrow> 'n jsval \<Rightarrow> 'n jsval" where
  "js_or N a b = (if truthy N a then a else b)"

text \<open>Exceptions are values: the kind of error, with its message and, for an axios
  error, the HTTP response (status and data) when there was one.\<close>

datatype 'n exn =
    AxiosError string "(nat \<times> 'n jsval) option"
  | TypeError string
  | Error string

fun message :: "'n exn \<Rightarrow> string" where
  "message (AxiosError m r) = m"
| "message (TypeError m) = m"
| "message (Error m) = m"

text \<open>\<open>err.response\<close>: only an axios error has one.\<close>

fun response_of :: "'n exn \<Rightarrow> (nat \<times> 'n jsval) option" where
  "response_of (AxiosError m r) = r"
| "response_of (TypeError m) = None"
| "response_of (Error m) = None"

fun isAxiosError :: "'n exn \<Rightarrow> bool" where
  "isAxiosError (AxiosError m r) = True"
| "isAxiosError (TypeError m) = False"
| "isAxiosError (Error m) = False"

text \<open>
  \<open>v.key\<close>: reading a property of \<open>undefined\<close> or \<open>null\<close> throws a \<open>TypeError\<close>; a
  value that is not an object has none of the properties read here.
\<close>

definition cannot_read :: "string \<Rightarrow> string \<Rightarrow> 'n exn" where
  "cannot_read base key =
     TypeError (''Cannot read properties of '' @ base @ '' (reading '' @ [CHR 0x27] @ key @ [CHR 0x27] @ '')'')"

fun get_prop :: "'n jsval \<Rightarrow> string \<Rightarrow> 'n exn + 'n jsval" where
  "get_prop JUndefined key = Inl (cannot_read ''undefined'' key)"
| "get_prop JNull key = Inl (cannot_read ''null'' key)"
| "get_prop (JObj kvs) key = Inr (case map_of kvs key of None \<Rightarrow> JUndefined | Some v \<Rightarrow> v)"
| "get_prop v key = Inr JUndefined"

text \<open>\<open>v?.key\<close>: \<open>undefined\<close> where \<open>v\<close> is \<open>undefined\<close> or \<open>null\<close>.\<close>

definition get_prop_opt :: "'n jsval \<Rightarrow> string \<Rightarrow> 'n jsval" where
  "get_prop_opt v key = (case get_prop v key of Inl e \<Rightarrow> JUndefined | Inr x \<Rightarrow> x)"

text \<open>\<open>v[0]\<close>: the first element of an array, the first character of a string.\<close>

fun get_first :: "'n jsval \<Rightarrow> 'n exn + 'n jsval" where
  "get_first JUndefined = Inl (cannot_read ''undefined'' ''0'')"
| "get_first JNull = Inl (cannot_read ''null'' ''0'')"
| "get_first (JArr xs) = Inr (case xs of [] \<Rightarrow> JUndefined | x # _ \<Rightarrow> x)"
| "get_first (JStr s) = Inr (case s of [] \<Rightarrow> JUndefined | c # _ \<Rightarrow> JStr [c])"
| "get_first (JObj kvs) = Inr (case map_of kvs ''0'' of None \<Rightarrow> JUndefined | Some v \<Rightarrow> v)"
| "get_first v = Inr JUndefined"

text \<open>\<open>const { a, b } = v\<close> throws when \<open>v\<close> is \<open>undefined\<close> or \<open>null\<close>.\<close>

definition cannot_destructure :: "string \<Rightarrow> string \<Rightarrow> 'n exn" where
  "cannot_destructure base key =
     TypeError (''Cannot destructure property '' @ [CHR 0x27] @ key @ [CHR 0x27]
       @ '' of '' @ [CHR 0x27] @ ''response.data'' @ [CHR 0x27] @ '' as it is '' @ base @ ''.'')"

fun destructure :: "'n jsval \<Rightarrow> string \<Rightarrow> 'n exn + 'n jsval" where
  "destructure JUndefined key = Inl (cannot_destructure ''undefined'' key)"
| "destructure JNull key = Inl (cannot_destructure ''null'' key)"
| "destructure v key = get_prop v key"

text \<open>Sequencing of steps that may throw.\<close>

definition and_then :: "'e + 'a \<Rightarrow> ('a \<Rightarrow> 'e + 'b) \<Rightarrow> 'e + 'b" where
  "and_then r f = (case r of Inl e \<Rightarrow> Inl e | Inr v \<Rightarrow> f v)"

subsection \<open>Strings\<close>

fun join_comma :: "string list \<Rightarrow> string" where
  "join_comma [] = []"
| "join_comma [x] = x"
| "join_comma (x # y # ys) = x @ '','' @ join_comma (y # ys)"

text \<open>\<open>String(v)\<close> and the interpolation of \<open>v\<close> into a template string.\<close>

fun to_string :: "'n numbers \<Rightarrow> 'n jsval \<Rightarrow> string" where
  "to_string N JUndefined = ''undefined''"
| "to_string N JNull = ''null''"
| "to_string N (JBool b) = (if b then ''true'' else ''false'')"
| "to_string N (JNum n) = num_toString N n"
| "to_string N (JStr s) = s"
| "to_string N (JArr xs) =
     join_comma (map (\<lambda>x. if x = JUndefined \<or> x = JNull then [] else to_string N x) xs)"
| "to_string N (JObj kvs) = ''[object Object]''"

text \<open>\<open>ToNumber\<close>, as the operand of \<open>*\<close> is read.\<close>

fun to_number :: "'n numbers \<Rightarrow> 'n jsval \<Rightarrow> 'n" where
  "to_number N JUndefined = num_NaN N"
| "to_number N JNull = num_lit N 0"
| "to_number N (JBool b) = num_lit N (if b then 1 else 0)"
| "to_number N (JNum n) = n"
| "to_number N (JStr s) = num_ofString N s"
| "to_number N v = num_ofString N (to_string N v)"

text \<open>The interpolation \<open>${v}\<close> of a value that is a string or missing.\<close>

definition opt_str :: "string option \<Rightarrow> string" where
  "opt_str v = (case v of None \<Rightarrow> ''undefined'' | Some s \<Rightarrow> s)"

text \<open>\<open>s.split(c)\<close> for a separator of one character.\<close>

fun split_on :: "char \<Rightarrow> string \<Rightarrow> string list" where
  "split_on c [] = [[]]"
| "split_on c (x # xs) =
     (if x = c then [] # split_on c xs
      else (case split_on c xs of [] \<Rightarrow> [[x]] | p # ps \<Rightarrow> (x # p) # ps))"

text \<open>\<open>s.indexOf(p) !== -1\<close>\<close>

fun contains_str :: "string \<Rightarrow> string \<Rightarrow> bool" where
  "contains_str [] p = (p = [])"
| "contains_str (c # cs) p = (take (length p) (c # cs) = p \<or> contains_str cs p)"

text \<open>The value of a hexadecimal digit.\<close>

definition digit_value :: "char \<Rightarrow> nat option" where
  "digit_value c =
     (let n = (of_char c :: nat) in
      if 48 \<le> n \<and> n \<le> 57 then Some (n - 48)
      else if 97 \<le> n \<and> n \<le> 102 then Some (n - 87)
      else if 65 \<le> n \<and> n \<le> 70 then Some (n - 55)
      else None)"

text \<open>
  \<open>encodeURIComponent\<close>: every byte outside the unreserved set is written as \<open>%\<close> and
  two upper-case hexadecimal digits.
\<close>

definition uri_unreserved :: string where
  "uri_unreserved = possible @ ''-_.!~*()'' @ [CHR 0x27]"

definition HEX_DIGITS :: string where
  "HEX_DIGITS = ''0123456789ABCDEF''"

definition percent_encode :: "char \<Rightarrow> string" where
  "percent_encode c =
     [CHR ''%'', HEX_DIGITS ! ((of_char c :: nat) div 16), HEX_DIGITS ! ((of_char c :: nat) mod 16)]"

definition encodeURIComponent :: "string \<Rightarrow> string" where
  "encodeURIComponent s =
     concat (map (\<lambda>c. if c \<in> set uri_unreserved then [c] else percent_encode c) s)"

subsection \<open>Reading a query string\<close>

text \<open>\<open>window.location.search\<close> of a URL: from the first \<open>?\<close> up to the fragment.\<close>

definition location_search :: "string \<Rightarrow> string" where
  "location_search url =
     takeWhile (\<lambda>c. c \<noteq> CHR ''#'') (dropWhile (\<lambda>c. c \<noteq> CHR ''?'') url)"

text \<open>The decoding of a name or value of a query string: \<open>+\<close> is a space, and \<open>%\<close>
  with two hexadecimal digits is the byte they name.\<close>

definition hex_pair :: "char \<Rightarrow> char \<Rightarrow> nat option" where
  "hex_pair h l =
     (case digit_value h of
        None \<Rightarrow> None
      | Some a \<Rightarrow> (case digit_value l of None \<Rightarrow> None | Some b \<Rightarrow> Some (a * 16 + b)))"

fun form_decode :: "string \<Rightarrow> string" where
  "form_decode [] = []"
| "form_decode [c] = [if c = CHR ''+'' then CHR '' '' else c]"
| "form_decode [c, d] = (if c = CHR ''+'' then CHR '' '' else c) # form_decode [d]"
| "form_decode (c # h # l # rest) =
     (if c = CHR ''+'' then CHR '' '' # form_decode (h # l # rest)
      else (case (if c = CHR ''%'' then hex_pair h l else None) of
              Some b \<Rightarrow> char_of b # form_decode rest
            | None \<Rightarrow> c # form_decode (h # l # rest)))"

text \<open>The text before the first occurrence of a character, and the text after it.\<close>

fun split_first :: "char \<Rightarrow> string \<Rightarrow> string \<times> string" where
  "split_first c [] = ([], [])"
| "split_first c (x # xs) =
     (if x = c then ([], xs) else (case split_first c xs of (a, b) \<Rightarrow> (x # a, b)))"

text \<open>\<open>new URLSearchParams(search)\<close>: the pairs of names and values, in order.\<close>

definition URLSearchParams :: "string \<Rightarrow> (string \<times> string) list" where
  "URLSearchParams search =
     map (\<lambda>p. case split_first (CHR ''='') p of (k, v) \<Rightarrow> (form_decode k, form_decode v))
       (filter (\<lambda>p. p \<noteq> [])
         (split_on (CHR ''&'') (case search of [] \<Rightarrow> [] | c # r \<Rightarrow> if c = CHR ''?'' then r else search)))"

text \<open>\<open>params.get(name)\<close>: the value of the first pair with that name.\<close>

definition params_get :: "(string \<times> string) list \<Rightarrow> string \<Rightarrow> string option" where
  "params_get params name = map_of params name"

section \<open>HTTP\<close>

datatype 'n body =
    NoBody
  | JsonBody "'n jsval"
  | FormBody "(string \<times> string) list"

text \<open>An outbound request: the URL, the headers the source sets, and the body.\<close>

datatype 'n request =
    HttpGet string "(string \<times> string) list"
  | HttpPost string "(string \<times> string) list" "'n body"

text \<open>
  What comes back to an axios call: a status with the response data as axios presents
  it, or no response at all (a transport failure, with its message).
\<close>

datatype 'n reply =
    Reply nat "'n jsval"
  | NoReply string

text \<open>The decimal digits of a status code, for the message of an axios error.\<close>

definition digits10 :: string where
  "digits10 = ''0123456789''"

fun show_nat :: "nat \<Rightarrow> string" where
  "show_nat n = (if n < 10 then [digits10 ! n] else show_nat (n div 10) @ [digits10 ! (n mod 10)])"

declare show_nat.simps [simp del]

text \<open>axios resolves on a status from 200 to 299 and rejects otherwise.\<close>

definition axios :: "'n reply \<Rightarrow> 'n exn + (nat \<times> 'n jsval)" where
  "axios r =
     (case r of
        NoReply m \<Rightarrow> Inl (AxiosError m None)
      | Reply st d \<Rightarrow>
          if 200 \<le> st \<and> st < 300 then Inr (st, d)
          else Inl (AxiosError (''Request failed with status code '' @ show_nat st) (Some (st, d))))"

text \<open>
  What a handler of the server answers: \<open>res.status(n).json(v)\<close>,
  \<open>res.status(n).send()\<close> or \<open>res.redirect(url)\<close>.
\<close>

datatype 'n response =
    Json nat "'n jsval"
  | Empty nat
  | Redirect string

text \<open>An object literal given to \<open>res.json\<close>: \<open>JSON.stringify\<close> leaves out the
  properties that are \<open>undefined\<close>.\<close>

definition json_object :: "(string \<times> 'n jsval) list \<Rightarrow> 'n jsval" where
  "json_object kvs = JObj (filter (\<lambda>kv. snd kv \<noteq> JUndefined) kvs)"

text \<open>\<open>err.response?.status || 500\<close>\<close>

definition status_or_500 :: "'n exn \<Rightarrow> nat" where
  "status_or_500 err =
     (case response_of err of None \<Rightarrow> 500 | Some (st, d) \<Rightarrow> if st \<noteq> 0 then st else 500)"

text \<open>\<open>err.response?.data || err.message\<close>\<close>

definition data_or_message :: "'n numbers \<Rightarrow> 'n exn \<Rightarrow> 'n jsval" where
  "data_or_message N err =
     (case response_of err of
        None \<Rightarrow> JStr (message err)
      | Some (st, d) \<Rightarrow> js_or N d (JStr (message err)))"

section \<open>The relay server\<close>

text \<open>The process environment: a variable may be unset.\<close>

record config =
  SPOTIFY_CLIENT_ID :: "string option"
  SPOTIFY_CLIENT_SECRET :: "string option"
  SPOTIFY_REDIRECT_URI :: "string option"
  FRONTEND_URL :: "string option"

definition SPOTIFY_TOKEN_URL :: string where
  "SPOTIFY_TOKEN_URL = ''https://accounts.spotify.com/api/token''"

definition FRONTEND_CALLBACK_URL :: "config \<Rightarrow> string" where
  "FRONTEND_CALLBACK_URL cfg =
     (if truthy_str (FRONTEND_URL cfg) then opt_str (FRONTEND_URL cfg) else ''http://localhost:5176'')"

text \<open>
  A handler returns its response together with the requests it sent to the provider,
  in order. \<open>provider\<close> gives the provider's reply to a request.

  \<open>req.query\<close> and \<open>req.body\<close> are objects, given as their lists of properties; a
  property that is absent reads as \<open>undefined\<close>. A query parameter is a string, or an
  array or an object when the query string repeats a name or uses brackets.
\<close>

definition field :: "(string \<times> 'n jsval) list \<Rightarrow> string \<Rightarrow> 'n jsval" where
  "field obj key = (case map_of obj key of None \<Rightarrow> JUndefined | Some v \<Rightarrow> v)"

subsection \<open>\<open>GET /callback\<close>\<close>

definition get_callback ::
  "'n numbers \<Rightarrow> config \<Rightarrow> (string \<times> 'n jsval) list \<Rightarrow> 'n response \<times> 'n request list" where
  "get_callback N cfg query =
     (let code = field query ''code'';
          error = field query ''error''
      in if truthy N error
         then (Redirect (FRONTEND_CALLBACK_URL cfg @ ''?error='' @ encodeURIComponent (to_string N error)), [])
         else if \<not> truthy N code
         then (Redirect (FRONTEND_CALLBACK_URL cfg @ ''?error=missing_code''), [])
         else (Redirect (FRONTEND_CALLBACK_URL cfg @ ''?code='' @ to_string N code), []))"

subsection \<open>\<open>POST /exchange-token\<close>\<close>

definition token_request :: "'n numbers \<Rightarrow> config \<Rightarrow> 'n jsval \<Rightarrow> 'n jsval \<Rightarrow> 'n request" where
  "token_request N cfg code code_verifier =
     HttpPost SPOTIFY_TOKEN_URL
       [(''Content-Type'', ''application/x-www-form-urlencoded''),
        (''Authorization'',
           ''Basic '' @ btoa (encode_utf8 (opt_str (SPOTIFY_CLIENT_ID cfg) @ '':'' @ opt_str (SPOTIFY_CLIENT_SECRET cfg))))]
       (FormBody
         [(''grant_type'', ''authorization_code''),
          (''code'', to_string N code),
          (''redirect_uri'', opt_str (SPOTIFY_REDIRECT_URI cfg)),
          (''client_id'', opt_str (SPOTIFY_CLIENT_ID cfg)),
          (''code_verifier'', to_string N code_verifier)])"

text \<open>The body of the \<open>try\<close> block after the request: the answer on success.\<close>

definition token_response :: "nat \<times> 'n jsval \<Rightarrow> 'n exn + 'n response" where
  "token_response r =
     (case r of (st, data) \<Rightarrow>
        and_then (get_prop data ''access_token'') (\<lambda>access_token.
        and_then (get_prop data ''expires_in'') (\<lambda>expires_in.
        and_then (get_prop data ''refresh_token'') (\<lambda>refresh_token.
          Inr (Json 200 (json_object
                 [(''access_token'', access_token),
                  (''expires_in'', expires_in),
                  (''refresh_token'', refresh_token)]))))))"

definition post_exchange_token ::
  "'n numbers \<Rightarrow> config \<Rightarrow> ('n request \<Rightarrow> 'n reply) \<Rightarrow> (string \<times> 'n jsval) list
   \<Rightarrow> 'n response \<times> 'n request list" where
  "post_exchange_token N cfg provider body =
     (let code = field body ''code'';
          code_verifier = field body ''code_verifier''
      in if \<not> truthy N code \<or> \<not> truthy N code_verifier
         then (Json 400 (json_object [(''error'', JStr ''Missing code or code_verifier in request body'')]), [])
         else
           (let req = token_request N cfg code code_verifier
            in case and_then (axios (provider req)) token_response of
                 Inr res \<Rightarrow> (res, [req])
               | Inl err \<Rightarrow>
                   (Json (status_or_500 err)
                      (json_object
                         [(''error'', JStr ''Failed to exchange code for token''),
                          (''details'', data_or_message N err)]),
                    [req])))"

subsection \<open>\<open>GET /current-track\<close>\<close>

definition CURRENTLY_PLAYING_URL :: string where
  "CURRENTLY_PLAYING_URL = ''https://api.spotify.com/v1/me/player/currently-playing''"

text \<open>\<open>req.headers.authorization?.split(' ')[1]\<close>\<close>

definition bearer_token :: "string option \<Rightarrow> string option" where
  "bearer_token authorization =
     (case authorization of
        None \<Rightarrow> None
      | Some h \<Rightarrow> (case split_on (CHR '' '') h of a # t # _ \<Rightarrow> Some t | _ \<Rightarrow> None))"

text \<open>The body of the \<open>try\<close> block after the request.\<close>

definition track_response :: "'n numbers \<Rightarrow> nat \<times> 'n jsval \<Rightarrow> 'n exn + 'n response" where
  "track_response N r =
     (case r of (st, data) \<Rightarrow>
        if st = 204 \<or> \<not> truthy N data \<or> \<not> truthy N (get_prop_opt data ''item'')
        then Inr (Empty 204)
        else
          (let item = get_prop_opt data ''item'';
               is_playing = get_prop_opt data ''is_playing''
           in and_then (get_prop item ''name'') (\<lambda>name.
              and_then (and_then (and_then (get_prop item ''artists'') get_first)
                          (\<lambda>a. get_prop a ''name'')) (\<lambda>artist.
              and_then (and_then (get_prop item ''album'') (\<lambda>a. get_prop a ''name'')) (\<lambda>album.
              and_then (and_then (and_then (and_then (get_prop item ''album'')
                          (\<lambda>a. get_prop a ''images'')) get_first)
                          (\<lambda>i. get_prop i ''url'')) (\<lambda>albumArt.
                Inr (Json 200 (json_object
                       [(''name'', name),
                        (''artist'', artist),
                        (''album'', album),
                        (''albumArt'', albumArt),
                        (''isPlaying'', is_playing)]))))))))"

definition get_current_track ::
  "'n numbers \<Rightarrow> ('n request \<Rightarrow> 'n reply) \<Rightarrow> string option \<Rightarrow> 'n response \<times> 'n request list" where
  "get_current_track N provider authorization =
     (let token = bearer_token authorization
      in if \<not> truthy_str token
         then (Json 401 (json_object [(''error'', JStr ''No token provided'')]), [])
         else
           (let req = HttpGet CURRENTLY_PLAYING_URL [(''Authorization'', ''Bearer '' @ opt_str token)]
            in case and_then (axios (provider req)) (track_response N) of
                 Inr res \<Rightarrow> (res, [req])
               | Inl err \<Rightarrow>
                   (Json (status_or_500 err)
                      (json_object
                         [(''error'', JStr ''Spotify API error during track fetch''),
                          (''details'', data_or_message N err)]),
                    [req])))"

section \<open>The browser client\<close>

text \<open>
  The state of the browser that the client code reads and writes: the two key-value
  stores, and the requests sent so far, oldest first.
\<close>

record 'n browser =
  localStorage :: "string \<rightharpoonup> string"
  sessionStorage :: "string \<rightharpoonup> string"
  sent :: "'n request list"

subsection \<open>utils/spotify.ts\<close>

text \<open>
  The world outside: \<open>clock k\<close> is the integer that \<open>Date.now()\<close> returns once \<open>k\<close>
  requests have been sent, and \<open>net k req\<close> is the reply to \<open>req\<close> when it is sent
  after \<open>k\<close> earlier requests.
\<close>

record 'n env =
  clock :: "nat \<Rightarrow> int"
  net :: "nat \<Rightarrow> 'n request \<Rightarrow> 'n reply"

definition BACKEND_URL :: string where
  "BACKEND_URL = ''http://localhost:3000''"

definition SPOTIFY_API_URL :: string where
  "SPOTIFY_API_URL = ''https://api.spotify.com/v1''"

definition Date_now :: "'n numbers \<Rightarrow> 'n env \<Rightarrow> ('n, 'a) browser_scheme \<Rightarrow> 'n" where
  "Date_now N e w = num_lit N (clock e (length (sent w)))"

text \<open>An axios call: the request is recorded, and the reply decides the outcome.\<close>

definition axios_call ::
  "'n env \<Rightarrow> 'n request \<Rightarrow> ('n, 'a) browser_scheme
   \<Rightarrow> ('n exn + (nat \<times> 'n jsval)) \<times> ('n, 'a) browser_scheme" where
  "axios_call e req w = (axios (net e (length (sent w)) req), w\<lparr>sent := sent w @ [req]\<rparr>)"

definition setItem :: "string \<Rightarrow> string \<Rightarrow> ('n, 'a) browser_scheme \<Rightarrow> ('n, 'a) browser_scheme" where
  "setItem key v w = w\<lparr>localStorage := (localStorage w)(key \<mapsto> v)\<rparr>"

definition refresh_request :: "string option \<Rightarrow> 'n request" where
  "refresh_request refresh_token =
     HttpPost (BACKEND_URL @ ''/api/spotify/token'') []
       (JsonBody (JObj [(''grant_type'', JStr ''refresh_token''),
                        (''refresh_token'', JStr (opt_str refresh_token))]))"

text \<open>\<open>new Error(error.response?.data?.error || 'Failed to refresh token')\<close>\<close>

definition refresh_failure :: "'n numbers \<Rightarrow> 'n exn \<Rightarrow> 'n exn" where
  "refresh_failure N error =
     Error (to_string N
       (js_or N (case response_of error of None \<Rightarrow> JUndefined | Some (st, d) \<Rightarrow> get_prop_opt d ''error'')
                (JStr ''Failed to refresh token'')))"

text \<open>
  \<open>refreshAccessToken\<close>: the result is the thrown error or the returned
  \<open>access_token\<close>, with the state after the call.
\<close>

definition refreshAccessToken ::
  "'n numbers \<Rightarrow> 'n env \<Rightarrow> ('n, 'a) browser_scheme
   \<Rightarrow> ('n exn + 'n jsval) \<times> ('n, 'a) browser_scheme" where
  "refreshAccessToken N e w =
     (let refresh_token = localStorage w ''refresh_token''
      in if \<not> truthy_str refresh_token
         then (Inl (Error ''No refresh token available''), w)
         else
           (case axios_call e (refresh_request refresh_token) w of (r, w1) \<Rightarrow>
              (case and_then r (\<lambda>(st, data).
                      and_then (destructure data ''access_token'') (\<lambda>access_token.
                      and_then (destructure data ''expires_in'') (\<lambda>expires_in.
                        Inr (access_token, expires_in)))) of
                 Inr (access_token, expires_in) \<Rightarrow>
                   (let w2 = setItem ''access_token'' (to_string N access_token) w1;
                        w3 = setItem ''token_expiry''
                               (num_toString N
                                  (num_add N (Date_now N e w2)
                                     (num_mul N (to_number N expires_in) (num_lit N 1000)))) w2
                    in (Inr access_token, w3))
               | Inl error \<Rightarrow>
                   if isAxiosError error then (Inl (refresh_failure N error), w1)
                   else (Inl error, w1))))"

definition playing_request :: "string \<Rightarrow> 'n request" where
  "playing_request token =
     HttpGet (SPOTIFY_API_URL @ ''/me/player/currently-playing'') [(''Authorization'', ''Bearer '' @ token)]"

text \<open>\<open>token_expiry && Date.now() > parseInt(token_expiry)\<close>\<close>

definition needs_refresh ::
  "'n numbers \<Rightarrow> 'n env \<Rightarrow> ('n, 'a) browser_scheme \<Rightarrow> string option \<Rightarrow> bool" where
  "needs_refresh N e w token_expiry =
     (truthy_str token_expiry \<and> num_gt N (Date_now N e w) (num_parseInt N (opt_str token_expiry)))"

text \<open>\<open>axios.isAxiosError(error) && error.response?.status === 401\<close>\<close>

definition is_401 :: "'n exn \<Rightarrow> bool" where
  "is_401 error =
     (isAxiosError error \<and> (case response_of error of None \<Rightarrow> False | Some (st, d) \<Rightarrow> st = 401))"

text \<open>The \<open>catch\<close> branch of \<open>getCurrentlyPlaying\<close> for a 401: refresh, then the
  request again with the new token.\<close>

definition retry_after_401 ::
  "'n numbers \<Rightarrow> 'n env \<Rightarrow> ('n, 'a) browser_scheme
   \<Rightarrow> ('n exn + 'n jsval) \<times> ('n, 'a) browser_scheme" where
  "retry_after_401 N e w =
     (case refreshAccessToken N e w of
        (Inl refreshError, w1) \<Rightarrow> (Inl refreshError, w1)
      | (Inr newToken, w1) \<Rightarrow>
          (case axios_call e (playing_request (to_string N newToken)) w1 of
             (Inl refreshError, w2) \<Rightarrow> (Inl refreshError, w2)
           | (Inr (st, data), w2) \<Rightarrow> (Inr data, w2)))"

text \<open>
  \<open>getCurrentlyPlaying\<close>: the result is the thrown error or the returned value
  (\<open>response.data\<close>, or \<open>null\<close>), with the state after the call.
\<close>

definition getCurrentlyPlaying ::
  "'n numbers \<Rightarrow> 'n env \<Rightarrow> ('n, 'a) browser_scheme
   \<Rightarrow> ('n exn + 'n jsval) \<times> ('n, 'a) browser_scheme" where
  "getCurrentlyPlaying N e w =
     (let access_token = localStorage w ''access_token'';
          token_expiry = localStorage w ''token_expiry''
      in if \<not> truthy_str access_token
         then (Inl (Error ''No access token available''), w)
         else
           (case (if needs_refresh N e w token_expiry
                  then refreshAccessToken N e w
                  else (Inr JUndefined, w)) of
              (Inl error, w1) \<Rightarrow> (Inl error, w1)
            | (Inr refreshed, w1) \<Rightarrow>
                (case axios_call e (playing_request (opt_str access_token)) w1 of
                   (Inr (st, data), w2) \<Rightarrow> (Inr data, w2)
                 | (Inl error, w2) \<Rightarrow>
                     if is_401 error then retry_after_401 N e w2
                     else (Inr JNull, w2))))"

subsection \<open>App.tsx\<close>

text \<open>The component: the browser state with the four state variables of \<open>App\<close>.\<close>

record 'n app = "'n browser" +
  track :: "'n jsval option"
  isLoading :: bool
  isAuthenticated :: bool
  accessToken :: "string option"

text \<open>
  What comes back to a \<open>fetch\<close>: a response with its status, its \<open>content-type\<close>
  header and its body read as JSON (\<open>None\<close> when \<open>response.json()\<close> throws), or a
  rejection.
\<close>

datatype 'n fetch_reply =
    FetchResponse nat "string option" "'n jsval option"
  | FetchFailed string

definition clearAuth :: "'n app \<Rightarrow> 'n app" where
  "clearAuth s =
     s\<lparr>localStorage := (localStorage s)(''spotify_access_token'' := None),
       sessionStorage := (sessionStorage s)(''spotify_code_verifier'' := None),
       accessToken := None,
       isAuthenticated := False,
       track := None\<rparr>"

definition track_request :: "string \<Rightarrow> string \<Rightarrow> 'n request" where
  "track_request backend token =
     HttpGet (backend @ ''/current-track'') [(''Authorization'', ''Bearer '' @ token)]"

text \<open>\<open>response.ok\<close>\<close>

definition ok :: "nat \<Rightarrow> bool" where
  "ok st = (200 \<le> st \<and> st \<le> 299)"

text \<open>The \<open>finally\<close> block: \<open>if (isLoading) setIsLoading(false)\<close>.\<close>

definition finally_loaded :: "'n app \<Rightarrow> 'n app" where
  "finally_loaded s = (if isLoading s then s\<lparr>isLoading := False\<rparr> else s)"

text \<open>
  \<open>validateAndFetchTrack\<close>. \<open>backend\<close> is \<open>VITE_BACKEND_URL\<close>, and \<open>fetch k req\<close> is
  the outcome of \<open>req\<close> when it is sent after \<open>k\<close> earlier requests.
\<close>

definition validateAndFetchTrack ::
  "'n numbers \<Rightarrow> string \<Rightarrow> (nat \<Rightarrow> 'n request \<Rightarrow> 'n fetch_reply) \<Rightarrow> string option
   \<Rightarrow> 'n app \<Rightarrow> 'n app" where
  "validateAndFetchTrack N backend fetch token s =
     (if \<not> truthy_str token
      then (clearAuth s)\<lparr>isLoading := False\<rparr>
      else
        (let req = track_request backend (opt_str token);
             s1 = s\<lparr>sent := sent s @ [req]\<rparr>
         in finally_loaded
              (case fetch (length (sent s)) req of
                 FetchFailed m \<Rightarrow> clearAuth s1
               | FetchResponse st contentType body \<Rightarrow>
                   if st = 401 then clearAuth s1
                   else if st = 204 then s1\<lparr>track := None, isAuthenticated := True\<rparr>
                   else if \<not> ok st then clearAuth s1
                   else if truthy_str contentType \<and> contains_str (opt_str contentType) ''application/json''
                   then (case body of
                           None \<Rightarrow> clearAuth s1
                         | Some data \<Rightarrow>
                             if truthy N data \<and> truthy N (get_prop_opt data ''name'')
                             then s1\<lparr>track := Some data, isAuthenticated := True\<rparr>
                             else s1\<lparr>track := None, isAuthenticated := True\<rparr>)
                   else s1\<lparr>track := None, isAuthenticated := True\<rparr>)))"

text \<open>
  The first lines of the mount effect of \<open>App\<close>: the \<open>code\<close> that the component reads
  from the address it was loaded at.
\<close>

definition App_code :: "string \<Rightarrow> string option" where
  "App_code url = params_get (URLSearchParams (location_search url)) ''code''"

section \<open>Scenarios\<close>

text \<open>Concrete inputs at which the handlers and the client are evaluated below.\<close>

subsection \<open>Numbers on the integers\<close>

text \<open>
  The theorems below hold for every implementation of the operations on numbers. To
  run the scenarios, one implementation is fixed here: integers computed exactly, with
  \<open>None\<close> for \<open>NaN\<close>. It is not the arithmetic of a JavaScript engine: it agrees
  with it on integers of magnitude below \<open>2^53\<close>, which is all the scenarios use; it
  has no fraction, and it converts a string that is not a decimal integer to \<open>NaN\<close>.
\<close>

type_synonym jsnum = "int option"

definition show_int :: "int \<Rightarrow> string" where
  "show_int i = (if i < 0 then CHR ''-'' # show_nat (nat (- i)) else show_nat (nat i))"

definition int_toString :: "jsnum \<Rightarrow> string" where
  "int_toString x = (case x of None \<Rightarrow> ''NaN'' | Some i \<Rightarrow> show_int i)"

definition int_falsy :: "jsnum \<Rightarrow> bool" where
  "int_falsy x = (case x of None \<Rightarrow> True | Some i \<Rightarrow> i = 0)"

definition is_space :: "char \<Rightarrow> bool" where
  "is_space c = (c \<in> set [CHR '' '', CHR 0x09, CHR 0x0A, CHR 0x0B, CHR 0x0C, CHR 0x0D])"

definition is_digit_in :: "nat \<Rightarrow> char \<Rightarrow> bool" where
  "is_digit_in radix c = (case digit_value c of None \<Rightarrow> False | Some d \<Rightarrow> d < radix)"

definition digits_value :: "nat \<Rightarrow> string \<Rightarrow> int" where
  "digits_value radix ds =
     foldl (\<lambda>acc c. acc * int radix + (case digit_value c of None \<Rightarrow> 0 | Some d \<Rightarrow> int d)) 0 ds"

text \<open>
  \<open>parseInt(s)\<close> with no radix: leading white space is skipped, a sign is read, a
  \<open>0x\<close> prefix selects radix 16, and the longest run of digits is the value; no digit
  gives \<open>NaN\<close>.
\<close>

definition int_parseInt :: "string \<Rightarrow> jsnum" where
  "int_parseInt s =
     (let s1 = dropWhile is_space s;
          neg = (case s1 of [] \<Rightarrow> False | c # _ \<Rightarrow> c = CHR ''-'');
          s2 = (case s1 of [] \<Rightarrow> [] | c # r \<Rightarrow> if c = CHR ''-'' \<or> c = CHR ''+'' then r else s1);
          hex = (case s2 of a # b # _ \<Rightarrow> a = CHR ''0'' \<and> (b = CHR ''x'' \<or> b = CHR ''X'') | _ \<Rightarrow> False);
          radix = (if hex then 16 else 10);
          s3 = (if hex then drop 2 s2 else s2);
          ds = takeWhile (is_digit_in radix) s3
      in if ds = [] then None
         else Some ((if neg then - 1 else 1) * digits_value radix ds))"

text \<open>\<open>Number(s)\<close> on decimal integers: white space around the digits is dropped and
  the empty string is \<open>0\<close>.\<close>

definition int_ofString :: "string \<Rightarrow> jsnum" where
  "int_ofString s =
     (let t = rev (dropWhile is_space (rev (dropWhile is_space s)));
          neg = (case t of [] \<Rightarrow> False | c # _ \<Rightarrow> c = CHR ''-'');
          ds = (case t of [] \<Rightarrow> [] | c # r \<Rightarrow> if c = CHR ''-'' \<or> c = CHR ''+'' then r else t)
      in if t = [] then Some 0
         else if ds \<noteq> [] \<and> list_all (is_digit_in 10) ds
              then Some ((if neg then - 1 else 1) * digits_value 10 ds)
         else None)"

definition int_mul :: "jsnum \<Rightarrow> jsnum \<Rightarrow> jsnum" where
  "int_mul a b = (case a of None \<Rightarrow> None | Some x \<Rightarrow> (case b of None \<Rightarrow> None | Some y \<Rightarrow> Some (x * y)))"

definition int_add :: "jsnum \<Rightarrow> jsnum \<Rightarrow> jsnum" where
  "int_add a b = (case a of None \<Rightarrow> None | Some x \<Rightarrow> (case b of None \<Rightarrow> None | Some y \<Rightarrow> Some (x + y)))"

definition int_gt :: "jsnum \<Rightarrow> jsnum \<Rightarrow> bool" where
  "int_gt a b = (case a of None \<Rightarrow> False | Some x \<Rightarrow> (case b of None \<Rightarrow> False | Some y \<Rightarrow> x > y))"

definition int_numbers :: "jsnum numbers" where
  "int_numbers =
     \<lparr>num_lit = Some, num_NaN = None, num_falsy = int_falsy, num_toString = int_toString,
      num_ofString = int_ofString, num_parseInt = int_parseInt,
      num_mul = int_mul, num_add = int_add, num_gt = int_gt\<rparr>"

subsection \<open>Inputs\<close>

definition cfg_unset :: config where
  "cfg_unset = \<lparr>SPOTIFY_CLIENT_ID = None, SPOTIFY_CLIENT_SECRET = None,
                 SPOTIFY_REDIRECT_URI = None, FRONTEND_URL = None\<rparr>"

text \<open>
  Redirects from the provider to \<open>/callback\<close>: with the code \<open>abc\<close>, with the error
  \<open>access_denied\<close>, with neither; and with a code, or an error, that holds the
  characters \<open>&\<close> and \<open>=\<close> (the provider sends it as \<open>a%26b%3Dc\<close>, and \<open>req.query\<close>
  holds it decoded).
\<close>

definition query_code :: "(string \<times> 'n jsval) list" where
  "query_code = [(''code'', JStr ''abc'')]"

definition query_error :: "(string \<times> 'n jsval) list" where
  "query_error = [(''error'', JStr ''access_denied'')]"

definition query_neither :: "(string \<times> 'n jsval) list" where
  "query_neither = []"

definition query_code_reserved :: "(string \<times> 'n jsval) list" where
  "query_code_reserved = [(''code'', JStr ''a&b=c'')]"

definition query_error_reserved :: "(string \<times> 'n jsval) list" where
  "query_error_reserved = [(''error'', JStr ''a&b=c'')]"

text \<open>A currently-playing payload whose album has no image.\<close>

definition payload_no_images :: "'n jsval" where
  "payload_no_images =
     JObj [(''is_playing'', JBool True),
           (''item'', JObj [(''name'', JStr ''Song''),
                            (''artists'', JArr [JObj [(''name'', JStr ''Band'')]]),
                            (''album'', JObj [(''name'', JStr ''LP''), (''images'', JArr [])])])]"

definition provider_no_images :: "'n request \<Rightarrow> 'n reply" where
  "provider_no_images req = Reply 200 payload_no_images"

text \<open>The same payload with one image.\<close>

definition payload_one_image :: "'n jsval" where
  "payload_one_image =
     JObj [(''is_playing'', JBool True),
           (''item'', JObj [(''name'', JStr ''Song''),
                            (''artists'', JArr [JObj [(''name'', JStr ''Band'')]]),
                            (''album'', JObj [(''name'', JStr ''LP''),
                                              (''images'', JArr [JObj [(''url'', JStr ''https://i.scdn.co/image/1'')]])])])]"

definition provider_one_image :: "'n request \<Rightarrow> 'n reply" where
  "provider_one_image req = Reply 200 payload_one_image"

text \<open>
  A provider that rejects the access token \<open>AT0\<close> with 401 and accepts \<open>AT1\<close>, and a
  token endpoint that answers every refresh with the new access token \<open>AT1\<close> and no
  \<open>refresh_token\<close>.
\<close>

fun net_rejects_AT0 :: "nat \<Rightarrow> jsnum request \<Rightarrow> jsnum reply" where
  "net_rejects_AT0 k (HttpPost url hs b) =
     Reply 200 (JObj [(''access_token'', JStr ''AT1''), (''expires_in'', JNum (Some 3600))])"
| "net_rejects_AT0 k (HttpGet url hs) =
     (if hs = [(''Authorization'', ''Bearer AT1'')] then Reply 200 payload_no_images
      else Reply 401 (JObj [(''error'', JStr ''The access token expired'')]))"

fun clock_5000 :: "nat \<Rightarrow> int" where
  "clock_5000 k = 5000"

definition env_rejects_AT0 :: "jsnum env" where
  "env_rejects_AT0 = \<lparr>clock = clock_5000, net = net_rejects_AT0\<rparr>"

text \<open>
  A browser that holds \<open>AT0\<close>, a refresh token and a verifier, with no expiry
  recorded; the same with an expiry instant that has passed; and the latter after its
  refresh.
\<close>

definition browser_AT0 :: "jsnum browser" where
  "browser_AT0 =
     \<lparr>localStorage = [''access_token'' \<mapsto> ''AT0'', ''refresh_token'' \<mapsto> ''RT0'',
                      ''code_verifier'' \<mapsto> ''V1''],
      sessionStorage = [''spotify_code_verifier'' \<mapsto> ''V1''],
      sent = []\<rparr>"

definition browser_AT0_expired :: "jsnum browser" where
  "browser_AT0_expired =
     \<lparr>localStorage = [''access_token'' \<mapsto> ''AT0'', ''refresh_token'' \<mapsto> ''RT0'',
                      ''code_verifier'' \<mapsto> ''V1'', ''token_expiry'' \<mapsto> ''1000''],
      sessionStorage = [''spotify_code_verifier'' \<mapsto> ''V1''],
      sent = []\<rparr>"

definition browser_AT0_refreshed :: "jsnum browser" where
  "browser_AT0_refreshed =
     browser_AT0_expired
       \<lparr>localStorage := (localStorage browser_AT0_expired)
                          (''access_token'' \<mapsto> ''AT1'', ''token_expiry'' \<mapsto> ''3605000''),
        sent := [refresh_request (Some ''RT0'')]\<rparr>"

text \<open>The component while a track is shown, and a backend that answers 401.\<close>

definition app_playing :: "jsnum app" where
  "app_playing =
     \<lparr>localStorage = [''spotify_access_token'' \<mapsto> ''AT1''],
      sessionStorage = [''spotify_code_verifier'' \<mapsto> ''V1''],
      sent = [],
      track = Some (JObj [(''name'', JStr ''Song'')]),
      isLoading = False,
      isAuthenticated = True,
      accessToken = Some ''AT1''\<rparr>"

fun fetch_401 :: "nat \<Rightarrow> jsnum request \<Rightarrow> jsnum fetch_reply" where
  "fetch_401 k req =
     FetchResponse 401 (Some ''application/json'') (Some (JObj [(''error'', JStr ''No token provided'')]))"

section \<open>Properties of the PKCE generator\<close>

lemma byte_bound: "unat (a::byte) < 256"
  using unsigned_less [of a, where 'a = nat] by simp

lemma sextets:
  "unat (a::byte) div 4 < 64"
  "unat (a::byte) mod 4 * 16 + unat (b::byte) div 16 < 64"
  "unat (b::byte) mod 16 * 4 + unat (c::byte) div 64 < 64"
  "unat (c::byte) mod 64 < 64"
  "unat (a::byte) mod 4 * 16 < 64"
  "unat (b::byte) mod 16 * 4 < 64"
  using byte_bound [of a] byte_bound [of b] byte_bound [of c] by arith+

lemma replace_twice:
  "replace_all (CHR ''/'') (CHR ''_'') (replace_all (CHR ''+'') (CHR ''-'') s) = map url_char s"
  by (simp add: replace_all_def url_char_def)

lemma length_b64_std: "length b64_std = 64"
  by (simp add: b64_std_def)

lemma length_b64_url: "length b64_url = 64"
  by (simp add: b64_url_def)

lemma url_char_nth:
  assumes "i < 64"
  shows "url_char (b64_std ! i) = b64_url ! i"
proof -
  have "map url_char b64_std = b64_url"
    by (simp add: url_char_def b64_std_def b64_url_def)
  then have "map url_char b64_std ! i = b64_url ! i" by simp
  then show ?thesis using assms by (simp add: length_b64_std)
qed

lemma url_char_eq: "url_char (CHR ''='') = CHR ''=''"
  by (simp add: url_char_def)

lemma base64_url_chars: "set (base64_encode b64_url False bs) \<subseteq> set b64_url"
  by (induction b64_url False bs rule: base64_encode.induct)
     (simp_all add: sextets length_b64_url)

text \<open>After the replacements, padded standard Base64 is URL-safe Base64 followed by
  the padding.\<close>

lemma base64_std_url:
  "\<exists>k. map url_char (base64_encode b64_std True bs)
        = base64_encode b64_url False bs @ replicate k (CHR ''='')"
proof (induction b64_std True bs rule: base64_encode.induct)
  case (1 a b c rest)
  then show ?case by (simp add: url_char_nth sextets)
next
  case (2 a b)
  have "map url_char (base64_encode b64_std True [a, b])
        = base64_encode b64_url False [a, b] @ replicate 1 (CHR ''='')"
    by (simp add: url_char_nth sextets url_char_eq)
  then show ?case by blast
next
  case (3 a)
  have "map url_char (base64_encode b64_std True [a])
        = base64_encode b64_url False [a] @ replicate 2 (CHR ''='')"
    by (simp add: url_char_nth sextets url_char_eq numeral_2_eq_2)
  then show ?case by blast
next
  case 4
  then show ?case by simp
qed

lemma strip_trailing_eq_append:
  assumes "CHR ''='' \<notin> set ys"
  shows "strip_trailing_eq (ys @ replicate k (CHR ''='')) = ys"
proof -
  have "dropWhile (\<lambda>x. x = CHR ''='') (replicate k (CHR ''='') @ rev ys)
        = dropWhile (\<lambda>x. x = CHR ''='') (rev ys)"
    by (rule dropWhile_append2) simp
  also have "\<dots> = rev ys"
    using assms by (cases "rev ys") (auto simp: dropWhile_eq_self_iff)
  finally show ?thesis by (simp add: strip_trailing_eq_def)
qed

lemma challenge_pipeline:
  "strip_trailing_eq (replace_all (CHR ''/'') (CHR ''_'') (replace_all (CHR ''+'') (CHR ''-'') (btoa bs)))
   = base64url bs"
proof -
  obtain k where k: "map url_char (base64_encode b64_std True bs)
                     = base64_encode b64_url False bs @ replicate k (CHR ''='')"
    using base64_std_url by blast
  have "CHR ''='' \<notin> set b64_url" by (simp add: b64_url_def)
  then have "CHR ''='' \<notin> set (base64_encode b64_url False bs)"
    using base64_url_chars [of bs] by blast
  then show ?thesis
    by (simp add: replace_twice btoa_def base64url_def k strip_trailing_eq_append)
qed

lemma base64url_clean:
  "CHR ''+'' \<notin> set (base64url bs)"
  "CHR ''/'' \<notin> set (base64url bs)"
  "\<not> ends_with (CHR ''='') (base64url bs)"
proof -
  have sub: "set (base64url bs) \<subseteq> set b64_url"
    using base64_url_chars by (simp add: base64url_def)
  have "CHR ''+'' \<notin> set b64_url" "CHR ''/'' \<notin> set b64_url" "CHR ''='' \<notin> set b64_url"
    by (simp_all add: b64_url_def)
  with sub have e: "CHR ''='' \<notin> set (base64url bs)"
    and p: "CHR ''+'' \<notin> set (base64url bs)"
    and q: "CHR ''/'' \<notin> set (base64url bs)" by blast+
  show "CHR ''+'' \<notin> set (base64url bs)" by (rule p)
  show "CHR ''/'' \<notin> set (base64url bs)" by (rule q)
  show "\<not> ends_with (CHR ''='') (base64url bs)"
  proof (cases "rev (base64url bs)")
    case Nil
    then show ?thesis by (simp add: ends_with_def)
  next
    case (Cons x xs)
    then have "x \<in> set (base64url bs)" by (metis list.set_intros(1) set_rev)
    with e Cons show ?thesis by (auto simp: ends_with_def)
  qed
qed

text \<open>The encoders at known values.\<close>

lemma base64_examples:
  "btoa (encode_utf8 ''test'') = ''dGVzdA==''"
  "base64url (encode_utf8 ''test'') = ''dGVzdA''"
  "btoa [0xfb, 0xff, 0xfe] = ''+//+''"
  "base64url [0xfb, 0xff, 0xfe] = ''-__-''"
  by (simp_all add: btoa_def base64url_def encode_utf8_def b64_std_def b64_url_def)

lemma hex_stringify_example: "hex_stringify [0x0f, 0xa0, 0xff] = ''0fa0ff''"
  by (simp add: hex_stringify_def hex_of_byte_def hex_digits_def)

text \<open>
  Claim C3. Challenge derivation is a function of the verifier (and of the digest
  function) alone, so two calls on the same verifier give the same string. In both
  source files that string is the URL-safe Base64 encoding, without padding, of the
  SHA-256 digest of the verifier's bytes; it contains no \<open>+\<close> and no \<open>/\<close> and does not
  end in \<open>=\<close>.
\<close>

theorem challenge_is_base64url:
  "generateCodeChallenge sha256 v = base64url (sha256 (encode_utf8 v))
   \<and> generateCodeChallenge_spotify sha256 v = base64url (sha256 (encode_utf8 v))
   \<and> CHR ''+'' \<notin> set (generateCodeChallenge sha256 v)
   \<and> CHR ''/'' \<notin> set (generateCodeChallenge sha256 v)
   \<and> \<not> ends_with (CHR ''='') (generateCodeChallenge sha256 v)"
  by (simp add: generateCodeChallenge_def generateCodeChallenge_spotify_def
        challenge_pipeline base64url_clean)

lemma charAt_possible:
  assumes "0 \<le> r" "r < 1"
  shows "\<exists>c. charAt possible \<lfloor>r * real (length possible)\<rfloor> = [c] \<and> c \<in> set possible"
proof -
  let ?n = "length possible"
  let ?i = "\<lfloor>r * real ?n\<rfloor>"
  have n: "0 < ?n" by (simp add: possible_def)
  have lo: "0 \<le> ?i" using assms(1) by simp
  have "r * real ?n < real ?n" using assms(2) n by simp
  then have hi: "?i < int ?n" by (simp add: floor_less_iff)
  have "nat ?i < ?n" using lo hi by linarith
  then have mem: "possible ! nat ?i \<in> set possible" by (rule nth_mem)
  have "charAt possible ?i = [possible ! nat ?i]"
    unfolding charAt_def using lo hi by simp
  with mem show ?thesis by blast
qed

text \<open>The loop adds one character of \<open>possible\<close> in each of its \<open>len - i\<close> rounds.\<close>

lemma generateRandomString_loop_props:
  assumes "\<forall>k. 0 \<le> rnd k \<and> rnd k < 1"
  shows "length (generateRandomString_loop rnd len i acc) = length acc + (len - i)
       \<and> set (generateRandomString_loop rnd len i acc) \<subseteq> set acc \<union> set possible"
  using assms
proof (induction rnd len i acc rule: generateRandomString_loop.induct)
  case (1 rnd len i acc)
  show ?case
  proof (cases "i < len")
    case True
    obtain c where c: "charAt possible \<lfloor>rnd i * real (length possible)\<rfloor> = [c]" "c \<in> set possible"
      using charAt_possible [of "rnd i"] "1.prems" by blast
    have ih: "length (generateRandomString_loop rnd len (Suc i) (acc @ [c]))
                = length (acc @ [c]) + (len - Suc i)
       \<and> set (generateRandomString_loop rnd len (Suc i) (acc @ [c])) \<subseteq> set (acc @ [c]) \<union> set possible"
      using "1.IH" [OF True] "1.prems" c(1) by simp
    have step: "generateRandomString_loop rnd len i acc
                = generateRandomString_loop rnd len (Suc i) (acc @ [c])"
      using True c(1) by (subst generateRandomString_loop.simps) simp
    show ?thesis using ih c(2) True unfolding step by auto
  next
    case False
    then show ?thesis
      by (subst generateRandomString_loop.simps, subst generateRandomString_loop.simps) simp
  qed
qed

lemma possible_url_safe: "c \<in> set possible \<Longrightarrow> url_safe c"
  by (simp add: url_safe_def)

lemma handleLogin_verifier_props:
  assumes "\<forall>k. 0 \<le> rnd k \<and> rnd k < 1"
  shows "length (handleLogin_verifier rnd) = 128"
    and "list_all url_safe (handleLogin_verifier rnd)"
proof -
  have p: "length (generateRandomString_loop rnd 128 0 []) = length ([]::string) + (128 - 0)
       \<and> set (generateRandomString_loop rnd 128 0 []) \<subseteq> set [] \<union> set possible"
    using assms by (rule generateRandomString_loop_props)
  show "length (handleLogin_verifier rnd) = 128"
    using p by (simp add: handleLogin_verifier_def generateRandomString_def)
  show "list_all url_safe (handleLogin_verifier rnd)"
    using p possible_url_safe
    by (auto simp: handleLogin_verifier_def generateRandomString_def list_all_iff)
qed

lemma hex_of_byte_props:
  "length (hex_of_byte b) = 2"
  "set (hex_of_byte b) \<subseteq> set hex_digits"
proof -
  have "unat b div 16 < 16" using byte_bound [of b] by arith
  moreover have "unat b mod 16 < 16" by simp
  moreover have "length hex_digits = 16" by (simp add: hex_digits_def)
  ultimately show "set (hex_of_byte b) \<subseteq> set hex_digits" by (simp add: hex_of_byte_def)
  show "length (hex_of_byte b) = 2" by (simp add: hex_of_byte_def)
qed

lemma hex_stringify_props:
  "length (hex_stringify bs) = 2 * length bs"
  "set (hex_stringify bs) \<subseteq> set hex_digits"
proof -
  show "length (hex_stringify bs) = 2 * length bs"
    by (induction bs) (simp_all add: hex_stringify_def hex_of_byte_props)
  show "set (hex_stringify bs) \<subseteq> set hex_digits"
    using hex_of_byte_props(2) by (auto simp: hex_stringify_def)
qed

lemma hex_url_safe: "c \<in> set hex_digits \<Longrightarrow> url_safe c"
  by (auto simp: url_safe_def hex_digits_def possible_def)

lemma generateCodeVerifier_props:
  "length (fst (generateCodeVerifier rbytes ls)) = 64"
  "list_all url_safe (fst (generateCodeVerifier rbytes ls))"
proof -
  show "length (fst (generateCodeVerifier rbytes ls)) = 64"
    by (simp add: generateCodeVerifier_def Let_def hex_stringify_props WordArray_random_def)
  show "list_all url_safe (fst (generateCodeVerifier rbytes ls))"
    using hex_stringify_props(2) hex_url_safe
    by (auto simp: generateCodeVerifier_def Let_def list_all_iff)
qed

text \<open>
  Claim C7. Every verifier the generators produce has between 43 and 128 characters,
  all of them URL-safe: the verifier of \<open>handleLogin\<close> (App.tsx) for every random
  source with values in \<open>[0, 1)\<close>, the verifier of \<open>generateCodeVerifier\<close>
  (utils/spotify.ts) for every source of random bytes.
\<close>

theorem verifier_length_and_charset:
  assumes "\<forall>k. 0 \<le> rnd k \<and> rnd k < 1"
  shows "43 \<le> length (handleLogin_verifier rnd)
       \<and> length (handleLogin_verifier rnd) \<le> 128
       \<and> list_all url_safe (handleLogin_verifier rnd)
       \<and> 43 \<le> length (fst (generateCodeVerifier rbytes ls))
       \<and> length (fst (generateCodeVerifier rbytes ls)) \<le> 128
       \<and> list_all url_safe (fst (generateCodeVerifier rbytes ls))"
  using handleLogin_verifier_props [OF assms] generateCodeVerifier_props [of rbytes ls]
  by simp

text \<open>Witness for C7: the random source that always returns one half, and the byte
  source that always returns 255.\<close>

theorem verifier_length_and_charset_witness:
  "(\<forall>k::nat. 0 \<le> (1/2::real) \<and> (1/2::real) < 1)
   \<and> 43 \<le> length (handleLogin_verifier (\<lambda>k. 1/2))
   \<and> length (handleLogin_verifier (\<lambda>k. 1/2)) \<le> 128
   \<and> list_all url_safe (handleLogin_verifier (\<lambda>k. 1/2))
   \<and> 43 \<le> length (fst (generateCodeVerifier (\<lambda>k. 255) Map.empty))
   \<and> length (fst (generateCodeVerifier (\<lambda>k. 255) Map.empty)) \<le> 128
   \<and> list_all url_safe (fst (generateCodeVerifier (\<lambda>k. 255) Map.empty))"
proof -
  have h: "\<forall>k::nat. 0 \<le> (1/2::real) \<and> (1/2::real) < 1" by simp
  show ?thesis
    using h verifier_length_and_charset [of "\<lambda>k. 1/2" "\<lambda>k. 255" Map.empty, OF h]
    by simp
qed

section \<open>Properties of the relay server\<close>

subsection \<open>\<open>POST /exchange-token\<close>\<close>

lemma falsy_parameter_rejected:
  assumes "\<not> truthy N (field body ''code'') \<or> \<not> truthy N (field body ''code_verifier'')"
  shows "post_exchange_token N cfg provider body =
           (Json 400 (JObj [(''error'', JStr ''Missing code or code_verifier in request body'')]), [])"
  using assms by (simp add: post_exchange_token_def Let_def json_object_def)

text \<open>
  Claim C4. When \<open>code\<close> or \<open>code_verifier\<close> is absent from the body of
  \<open>POST /exchange-token\<close> (it reads as \<open>undefined\<close>) or is the empty string, the handler
  answers with status 400 and the missing-parameter error, and it has sent no request
  to the provider.
\<close>

theorem exchange_missing_parameter:
  assumes "field body ''code'' = JUndefined \<or> field body ''code'' = JStr []
         \<or> field body ''code_verifier'' = JUndefined \<or> field body ''code_verifier'' = JStr []"
  shows "fst (post_exchange_token N cfg provider body) =
           Json 400 (JObj [(''error'', JStr ''Missing code or code_verifier in request body'')])
       \<and> snd (post_exchange_token N cfg provider body) = []"
proof -
  have "\<not> truthy N (field body ''code'') \<or> \<not> truthy N (field body ''code_verifier'')"
    using assms by auto
  then show ?thesis by (simp add: falsy_parameter_rejected)
qed

text \<open>Witness for C4: a body with a code and no verifier.\<close>

theorem exchange_missing_parameter_witness:
  "field [(''code'', JStr ''XYZ'')] ''code_verifier'' = (JUndefined :: jsnum jsval)
   \<and> fst (post_exchange_token int_numbers cfg_unset provider_no_images [(''code'', JStr ''XYZ'')]) =
           Json 400 (JObj [(''error'', JStr ''Missing code or code_verifier in request body'')])
   \<and> snd (post_exchange_token int_numbers cfg_unset provider_no_images [(''code'', JStr ''XYZ'')]) = []"
proof -
  have h: "field [(''code'', JStr ''XYZ'')] ''code_verifier'' = (JUndefined :: jsnum jsval)"
    by (simp add: field_def)
  show ?thesis
    using h exchange_missing_parameter
              [of "[(''code'', JStr ''XYZ'')]" int_numbers cfg_unset provider_no_images]
    by simp
qed

text \<open>With both parameters present the handler does send the token request.\<close>

lemma exchange_sends_when_present:
  assumes "truthy N (field body ''code'')" "truthy N (field body ''code_verifier'')"
  shows "snd (post_exchange_token N cfg provider body) =
           [token_request N cfg (field body ''code'') (field body ''code_verifier'')]"
  using assms by (simp add: post_exchange_token_def Let_def split: sum.splits)

subsection \<open>\<open>GET /current-track\<close>: the header\<close>

lemma split_on_first:
  "\<exists>ps. split_on c xs = takeWhile (\<lambda>x. x \<noteq> c) xs # ps"
  by (induction xs) auto

lemma split_on_no_sep:
  assumes "c \<notin> set a"
  shows "split_on c a = [a]"
  using assms by (induction a) auto

lemma split_on_append:
  assumes "c \<notin> set a"
  shows "split_on c (a @ c # rest) = a # split_on c rest"
  using assms by (induction a) auto

text \<open>What the handler takes for the token: nothing when the header has no space,
  and otherwise the text between the first space and the next one.\<close>

lemma bearer_token_single_word:
  assumes "CHR '' '' \<notin> set h"
  shows "bearer_token (Some h) = None"
  using assms by (simp add: bearer_token_def split_on_no_sep)

lemma bearer_token_second_word:
  assumes "CHR '' '' \<notin> set a"
  shows "bearer_token (Some (a @ '' '' @ rest)) = Some (takeWhile (\<lambda>x. x \<noteq> CHR '' '') rest)"
proof -
  obtain ps where ps: "split_on (CHR '' '') rest = takeWhile (\<lambda>x. x \<noteq> CHR '' '') rest # ps"
    using split_on_first by blast
  have "split_on (CHR '' '') (a @ CHR '' '' # rest) = a # split_on (CHR '' '') rest"
    using assms by (rule split_on_append)
  then show ?thesis by (simp add: bearer_token_def ps)
qed

lemma takeWhile_starts_with_sep:
  assumes "list_all (\<lambda>x. x = c) (take 1 rest)"
  shows "takeWhile (\<lambda>x. x \<noteq> c) rest = []"
  using assms by (cases rest) auto

lemma takeWhile_word:
  assumes "c \<notin> set t" "list_all (\<lambda>x. x = c) (take 1 junk)"
  shows "takeWhile (\<lambda>x. x \<noteq> c) (t @ junk) = t"
proof -
  have "takeWhile (\<lambda>x. x \<noteq> c) (t @ junk) = t @ takeWhile (\<lambda>x. x \<noteq> c) junk"
    using assms(1) by (intro takeWhile_append2) auto
  then show ?thesis using takeWhile_starts_with_sep [OF assms(2)] by simp
qed

lemma no_token_401:
  assumes "\<not> truthy_str (bearer_token authorization)"
  shows "get_current_track N provider authorization =
           (Json 401 (JObj [(''error'', JStr ''No token provided'')]), [])"
  using assms by (simp add: get_current_track_def Let_def json_object_def)

lemma token_forwarded:
  assumes "bearer_token authorization = Some t" "t \<noteq> []"
  shows "snd (get_current_track N provider authorization) =
           [HttpGet CURRENTLY_PLAYING_URL [(''Authorization'', ''Bearer '' @ t)]]"
  using assms by (simp add: get_current_track_def Let_def opt_str_def split: sum.splits)

text \<open>
  Claim C10, as stated, fails for a header that carries credentials of another scheme
  and so no bearer token: the handler does not look at the scheme, sends the second
  word of \<open>Basic dXNlcjpwYXNz\<close> to the provider as a bearer token, and answers with what
  the provider returns.
\<close>

theorem current_track_basic_counterexample:
  "get_current_track int_numbers provider_one_image (Some ''Basic dXNlcjpwYXNz'')
   = (Json 200
        (JObj [(''name'', JStr ''Song''), (''artist'', JStr ''Band''), (''album'', JStr ''LP''),
               (''albumArt'', JStr ''https://i.scdn.co/image/1''), (''isPlaying'', JBool True)]),
      [HttpGet CURRENTLY_PLAYING_URL [(''Authorization'', ''Bearer dXNlcjpwYXNz'')]])"
  by (simp add: get_current_track_def provider_one_image_def payload_one_image_def bearer_token_def
        opt_str_def axios_def and_then_def track_response_def get_prop_opt_def json_object_def)

text \<open>
  Claim C10, amended. The handler of \<open>GET /current-track\<close> answers 401 with the error
  body \<open>No token provided\<close>, and sends no request to the provider, when the
  \<open>Authorization\<close> header is absent, when it holds no space, and when nothing stands
  between its first space and the next space or the end of the header. The scheme
  is not examined: for every other header, whatever its first word \<open>a\<close>, the handler
  sends one request to the provider, with the second word \<open>t\<close> of the header as the
  bearer token.
\<close>

theorem current_track_header:
  "get_current_track N provider None
     = (Json 401 (JObj [(''error'', JStr ''No token provided'')]), [])
   \<and> (CHR '' '' \<notin> set h \<longrightarrow>
        get_current_track N provider (Some h)
          = (Json 401 (JObj [(''error'', JStr ''No token provided'')]), []))
   \<and> (CHR '' '' \<notin> set a \<and> list_all (\<lambda>x. x = CHR '' '') (take 1 rest) \<longrightarrow>
        get_current_track N provider (Some (a @ '' '' @ rest))
          = (Json 401 (JObj [(''error'', JStr ''No token provided'')]), []))
   \<and> (CHR '' '' \<notin> set a \<and> CHR '' '' \<notin> set t \<and> t \<noteq> []
        \<and> list_all (\<lambda>x. x = CHR '' '') (take 1 junk) \<longrightarrow>
        snd (get_current_track N provider (Some (a @ '' '' @ t @ junk)))
          = [HttpGet CURRENTLY_PLAYING_URL [(''Authorization'', ''Bearer '' @ t)]])"
proof (intro conjI impI)
  show "get_current_track N provider None
     = (Json 401 (JObj [(''error'', JStr ''No token provided'')]), [])"
    by (rule no_token_401) (simp add: bearer_token_def)
next
  assume "CHR '' '' \<notin> set h"
  then have "bearer_token (Some h) = None" by (rule bearer_token_single_word)
  then show "get_current_track N provider (Some h)
          = (Json 401 (JObj [(''error'', JStr ''No token provided'')]), [])"
    by (intro no_token_401) simp
next
  assume a: "CHR '' '' \<notin> set a \<and> list_all (\<lambda>x. x = CHR '' '') (take 1 rest)"
  then have "bearer_token (Some (a @ '' '' @ rest)) = Some []"
    using bearer_token_second_word [of a rest] takeWhile_starts_with_sep [of "CHR '' ''" rest]
    by simp
  then show "get_current_track N provider (Some (a @ '' '' @ rest))
          = (Json 401 (JObj [(''error'', JStr ''No token provided'')]), [])"
    by (intro no_token_401) simp
next
  assume a: "CHR '' '' \<notin> set a \<and> CHR '' '' \<notin> set t \<and> t \<noteq> []
        \<and> list_all (\<lambda>x. x = CHR '' '') (take 1 junk)"
  then have "bearer_token (Some (a @ '' '' @ t @ junk)) = Some t"
    using bearer_token_second_word [of a "t @ junk"] takeWhile_word [of "CHR '' ''" t junk]
    by simp
  then show "snd (get_current_track N provider (Some (a @ '' '' @ t @ junk)))
          = [HttpGet CURRENTLY_PLAYING_URL [(''Authorization'', ''Bearer '' @ t)]]"
    using a by (intro token_forwarded) simp_all
qed

text \<open>
  Witness for C10: no header; the header \<open>Bearer\<close>; the header \<open>Bearer\<close> followed by
  a space; and the headers \<open>Bearer AT1\<close> and \<open>Basic dXNlcjpwYXNz\<close>.
\<close>

theorem current_track_header_witness:
  "get_current_track int_numbers provider_one_image None
     = (Json 401 (JObj [(''error'', JStr ''No token provided'')]), [])
   \<and> CHR '' '' \<notin> set ''Bearer''
   \<and> get_current_track int_numbers provider_one_image (Some ''Bearer'')
     = (Json 401 (JObj [(''error'', JStr ''No token provided'')]), [])
   \<and> get_current_track int_numbers provider_one_image (Some ''Bearer '')
     = (Json 401 (JObj [(''error'', JStr ''No token provided'')]), [])
   \<and> snd (get_current_track int_numbers provider_one_image (Some ''Bearer AT1''))
     = [HttpGet CURRENTLY_PLAYING_URL [(''Authorization'', ''Bearer AT1'')]]
   \<and> snd (get_current_track int_numbers provider_one_image (Some ''Basic dXNlcjpwYXNz''))
     = [HttpGet CURRENTLY_PLAYING_URL [(''Authorization'', ''Bearer dXNlcjpwYXNz'')]]"
  using current_track_header [of int_numbers provider_one_image "''Bearer''" "''Bearer''" "[]" "''AT1''" "[]"]
        current_track_header [of int_numbers provider_one_image "''Bearer''" "''Basic''" "[]" "''dXNlcjpwYXNz''" "[]"]
  by simp

subsection \<open>\<open>GET /callback\<close>\<close>

text \<open>
  What the relay does with every redirect: it answers with a redirect to the client
  application and sends no request of its own. A truthy \<open>error\<close> is forwarded through
  \<open>encodeURIComponent\<close>; without one, a truthy \<open>code\<close> is put into the address as it
  is; with neither, the error indicator \<open>missing_code\<close> is forwarded.
\<close>

lemma callback_redirects:
  "(truthy N (field query ''error'') \<longrightarrow>
      get_callback N cfg query =
        (Redirect (FRONTEND_CALLBACK_URL cfg @ ''?error=''
                    @ encodeURIComponent (to_string N (field query ''error''))), []))
   \<and> (\<not> truthy N (field query ''error'') \<and> truthy N (field query ''code'') \<longrightarrow>
      get_callback N cfg query =
        (Redirect (FRONTEND_CALLBACK_URL cfg @ ''?code='' @ to_string N (field query ''code'')), []))
   \<and> (\<not> truthy N (field query ''error'') \<and> \<not> truthy N (field query ''code'') \<longrightarrow>
      get_callback N cfg query =
        (Redirect (FRONTEND_CALLBACK_URL cfg @ ''?error=missing_code''), []))"
  by (simp add: get_callback_def Let_def)

lemma callback_examples:
  "get_callback N cfg_unset query_code = (Redirect ''http://localhost:5176?code=abc'', [])"
  "get_callback N cfg_unset query_error = (Redirect ''http://localhost:5176?error=access_denied'', [])"
  "get_callback N cfg_unset query_neither = (Redirect ''http://localhost:5176?error=missing_code'', [])"
  by (simp_all add: get_callback_def cfg_unset_def query_code_def query_error_def query_neither_def
        field_def FRONTEND_CALLBACK_URL_def encodeURIComponent_def uri_unreserved_def possible_def
        opt_str_def)

text \<open>
  A code of URL-safe characters does reach the client application: the address the
  relay redirects to, read as the client reads it, gives the code back.
\<close>

lemma form_decode_plain:
  assumes "CHR ''+'' \<notin> set s" "CHR ''%'' \<notin> set s"
  shows "form_decode s = s"
  using assms by (induction s rule: form_decode.induct) auto

lemma split_first_append:
  assumes "c \<notin> set a"
  shows "split_first c (a @ c # rest) = (a, rest)"
  using assms by (induction a) auto

lemma location_search_append:
  assumes "CHR ''?'' \<notin> set origin" "CHR ''#'' \<notin> set q"
  shows "location_search (origin @ CHR ''?'' # q) = CHR ''?'' # q"
proof -
  have "dropWhile (\<lambda>c. c \<noteq> CHR ''?'') (origin @ CHR ''?'' # q) = CHR ''?'' # q"
    using assms(1) by (auto simp: dropWhile_append3)
  moreover have "takeWhile (\<lambda>c. c \<noteq> CHR ''#'') (CHR ''?'' # q) = CHR ''?'' # q"
    using assms(2) by (auto simp: takeWhile_eq_all_conv)
  ultimately show ?thesis by (simp add: location_search_def)
qed

lemma url_safe_not_reserved:
  assumes "list_all url_safe c"
  shows "CHR ''&'' \<notin> set c" "CHR ''='' \<notin> set c" "CHR ''+'' \<notin> set c"
        "CHR ''%'' \<notin> set c" "CHR ''#'' \<notin> set c"
proof -
  have r: "\<not> url_safe (CHR ''&'')" "\<not> url_safe (CHR ''='')" "\<not> url_safe (CHR ''+'')"
          "\<not> url_safe (CHR ''%'')" "\<not> url_safe (CHR ''#'')"
    by (simp_all add: url_safe_def possible_def)
  show "CHR ''&'' \<notin> set c" "CHR ''='' \<notin> set c" "CHR ''+'' \<notin> set c"
       "CHR ''%'' \<notin> set c" "CHR ''#'' \<notin> set c"
    using assms r by (auto simp: list_all_iff)
qed

lemma App_code_roundtrip:
  assumes "CHR ''?'' \<notin> set origin" "list_all url_safe c"
  shows "App_code (origin @ ''?code='' @ c) = Some c"
proof -
  note nr = url_safe_not_reserved [OF assms(2)]
  have "CHR ''#'' \<notin> set (''code='' @ c)" using nr(5) by simp
  then have s: "location_search (origin @ CHR ''?'' # (''code='' @ c)) = CHR ''?'' # (''code='' @ c)"
    using assms(1) by (rule location_search_append [rotated])
  have "CHR ''&'' \<notin> set (''code='' @ c)" using nr(1) by simp
  then have sp: "split_on (CHR ''&'') (''code='' @ c) = [''code='' @ c]"
    by (rule split_on_no_sep)
  have sf: "split_first (CHR ''='') (''code'' @ CHR ''='' # c) = (''code'', c)"
    by (rule split_first_append) simp
  have d: "form_decode c = c" using nr(3) nr(4) by (rule form_decode_plain)
  have d': "form_decode ''code'' = ''code''" by (rule form_decode_plain) simp_all
  have "URLSearchParams (CHR ''?'' # (''code='' @ c)) = [(''code'', c)]"
    using sp sf d d' by (simp add: URLSearchParams_def)
  then show ?thesis using s by (simp add: App_code_def params_get_def)
qed

lemma callback_code_roundtrip:
  assumes "\<not> truthy N (field query ''error'')" "field query ''code'' = JStr c" "c \<noteq> []"
    and "list_all url_safe c" "CHR ''?'' \<notin> set (FRONTEND_CALLBACK_URL cfg)"
  shows "get_callback N cfg query = (Redirect (FRONTEND_CALLBACK_URL cfg @ ''?code='' @ c), [])
       \<and> App_code (FRONTEND_CALLBACK_URL cfg @ ''?code='' @ c) = Some c"
  using assms App_code_roundtrip [OF assms(5,4)]
  by (simp add: get_callback_def Let_def)

lemma decoded_bytes:
  "char_of (38::nat) = CHR ''&''"
  "char_of (61::nat) = CHR ''=''"
  by code_simp+

text \<open>The sibling path: an error with reserved characters reaches the client whole.\<close>

lemma callback_error_encoded:
  "get_callback N cfg_unset query_error_reserved
     = (Redirect ''http://localhost:5176?error=a%26b%3Dc'', [])"
  "params_get (URLSearchParams (location_search ''http://localhost:5176?error=a%26b%3Dc'')) ''error''
     = Some ''a&b=c''"
  by (simp_all add: get_callback_def cfg_unset_def query_error_reserved_def field_def
        FRONTEND_CALLBACK_URL_def encodeURIComponent_def uri_unreserved_def possible_def opt_str_def
        percent_encode_def HEX_DIGITS_def params_get_def URLSearchParams_def location_search_def
        hex_pair_def digit_value_def decoded_bytes)

text \<open>
  Claim C6 at a redirect that carries only a code, with reserved characters in it: the
  relay puts the code \<open>a&b=c\<close> into the address without the encoding that the error
  path applies, so the address it redirects to carries the two parameters \<open>code=a\<close>
  and \<open>b=c\<close>, and the client application reads the code \<open>a\<close>: the code is not
  forwarded.
\<close>

theorem callback_code_not_encoded:
  "get_callback N cfg_unset query_code_reserved
     = (Redirect ''http://localhost:5176?code=a&b=c'', [])
   \<and> URLSearchParams (location_search ''http://localhost:5176?code=a&b=c'')
     = [(''code'', ''a''), (''b'', ''c'')]
   \<and> App_code ''http://localhost:5176?code=a&b=c'' = Some ''a''"
  by (simp add: get_callback_def cfg_unset_def query_code_reserved_def field_def
        FRONTEND_CALLBACK_URL_def opt_str_def App_code_def params_get_def URLSearchParams_def
        location_search_def)

subsection \<open>\<open>GET /current-track\<close>: the payload\<close>

text \<open>With an image in the album the handler answers with the track.\<close>

lemma current_track_one_image:
  "get_current_track N provider_one_image (Some ''Bearer AT1'')
   = (Json 200
        (JObj [(''name'', JStr ''Song''), (''artist'', JStr ''Band''), (''album'', JStr ''LP''),
               (''albumArt'', JStr ''https://i.scdn.co/image/1''), (''isPlaying'', JBool True)]),
      [HttpGet CURRENTLY_PLAYING_URL [(''Authorization'', ''Bearer AT1'')]])"
  by (simp add: get_current_track_def provider_one_image_def payload_one_image_def bearer_token_def
        opt_str_def axios_def and_then_def track_response_def get_prop_opt_def json_object_def)

text \<open>
  Claim C2 at the payload whose album has an empty \<open>images\<close> array: reading \<open>url\<close> of
  \<open>images[0]\<close> throws inside the \<open>try\<close> block, and the handler answers with status 500
  and the generic error body instead of a track.
\<close>

theorem current_track_empty_images:
  "get_current_track N provider_no_images (Some ''Bearer AT1'')
   = (Json 500
        (JObj [(''error'', JStr ''Spotify API error during track fetch''),
               (''details'', JStr (message (cannot_read ''undefined'' ''url'')))]),
      [HttpGet CURRENTLY_PLAYING_URL [(''Authorization'', ''Bearer AT1'')]])"
  by (simp add: get_current_track_def provider_no_images_def payload_no_images_def bearer_token_def
        opt_str_def axios_def and_then_def track_response_def get_prop_opt_def json_object_def
        status_or_500_def data_or_message_def js_or_def cannot_read_def)

section \<open>Properties of the browser client\<close>

subsection \<open>What a refresh changes\<close>

lemma refresh_keeps_key:
  assumes "refreshAccessToken N e w = (r, w')"
    and "key \<noteq> ''access_token''" "key \<noteq> ''token_expiry''"
  shows "localStorage w' key = localStorage w key"
  using assms
  by (auto simp: refreshAccessToken_def Let_def axios_call_def setItem_def
           split: sum.splits prod.splits if_splits)

lemma refresh_dom:
  assumes "refreshAccessToken N e w = (r, w')"
  shows "dom (localStorage w) \<subseteq> dom (localStorage w')"
  using assms
  by (auto simp: refreshAccessToken_def Let_def axios_call_def setItem_def
           split: sum.splits prod.splits if_splits)

lemma refresh_sent_ok:
  assumes "refreshAccessToken N e w = (Inr v, w')"
  shows "sent w' = sent w @ [refresh_request (localStorage w ''refresh_token'')]"
  using assms
  by (auto simp: refreshAccessToken_def Let_def axios_call_def setItem_def
           split: sum.splits prod.splits if_splits)

lemma refresh_stores_token:
  assumes "refreshAccessToken N e w = (Inr v, w')"
  shows "localStorage w' ''access_token'' = Some (to_string N v)"
  using assms
  by (auto simp: refreshAccessToken_def Let_def axios_call_def setItem_def
           split: sum.splits prod.splits if_splits)

lemma refresh_sent_prefix:
  assumes "refreshAccessToken N e w = (r, w')"
  shows "\<exists>xs. sent w' = sent w @ xs"
  using assms
  by (auto simp: refreshAccessToken_def Let_def axios_call_def setItem_def
           split: sum.splits prod.splits if_splits)

lemma retry_keeps_key:
  assumes "retry_after_401 N e w = (r, w')"
    and "key \<noteq> ''access_token''" "key \<noteq> ''token_expiry''"
  shows "localStorage w' key = localStorage w key"
proof (cases "refreshAccessToken N e w")
  case (Pair r1 w1)
  have k: "localStorage w1 key = localStorage w key"
    using refresh_keeps_key [OF Pair assms(2,3)] .
  show ?thesis
    using assms(1) Pair k
    by (auto simp: retry_after_401_def axios_call_def split: sum.splits prod.splits)
qed

lemma retry_dom:
  assumes "retry_after_401 N e w = (r, w')"
  shows "dom (localStorage w) \<subseteq> dom (localStorage w')"
proof (cases "refreshAccessToken N e w")
  case (Pair r1 w1)
  have k: "dom (localStorage w) \<subseteq> dom (localStorage w1)"
    using refresh_dom [OF Pair] .
  show ?thesis
    using assms(1) Pair k
    by (auto simp: retry_after_401_def axios_call_def split: sum.splits prod.splits)
qed

lemma retry_sent_prefix:
  assumes "retry_after_401 N e w = (r, w')"
  shows "\<exists>xs. sent w' = sent w @ xs"
proof (cases "refreshAccessToken N e w")
  case (Pair r1 w1)
  obtain xs where k: "sent w1 = sent w @ xs"
    using refresh_sent_prefix [OF Pair] by blast
  show ?thesis
    using assms(1) Pair k
    by (auto simp: retry_after_401_def axios_call_def split: sum.splits prod.splits)
qed

text \<open>The states in which \<open>getCurrentlyPlaying\<close> can end.\<close>

lemma playing_cases:
  assumes "getCurrentlyPlaying N e w = (r, w')"
  shows "w' = w
       \<or> (\<exists>r1 w1. refreshAccessToken N e w = (r1, w1) \<and> w' = w1)
       \<or> (\<exists>w1 req. (w1 = w \<or> (\<exists>r1. refreshAccessToken N e w = (r1, w1)))
             \<and> (w' = w1\<lparr>sent := sent w1 @ [req]\<rparr>
                \<or> retry_after_401 N e (w1\<lparr>sent := sent w1 @ [req]\<rparr>) = (r, w')))"
proof (cases "truthy_str (localStorage w ''access_token'')")
  case False
  then show ?thesis using assms by (simp add: getCurrentlyPlaying_def Let_def)
next
  case True
  show ?thesis
  proof (cases "needs_refresh N e w (localStorage w ''token_expiry'')")
    case nr: False
    show ?thesis
      using assms True nr
      by (auto simp: getCurrentlyPlaying_def Let_def axios_call_def
               split: sum.splits prod.splits if_splits)
  next
    case nr: True
    obtain r1 w1 where rf: "refreshAccessToken N e w = (r1, w1)"
      by (cases "refreshAccessToken N e w")
    show ?thesis
      using assms True nr rf
      by (auto simp: getCurrentlyPlaying_def Let_def axios_call_def
               split: sum.splits prod.splits if_splits)
  qed
qed

lemma playing_keeps_key:
  fixes w :: "('n, 'x) browser_scheme"
  assumes "key \<noteq> ''access_token''" "key \<noteq> ''token_expiry''"
  shows "localStorage (snd (getCurrentlyPlaying N e w)) key = localStorage w key"
proof -
  obtain r w' where g: "getCurrentlyPlaying N e w = (r, w')"
    by (cases "getCurrentlyPlaying N e w")
  have rk: "localStorage w1 key = localStorage w0 key"
    if "refreshAccessToken N e w0 = (r1, w1)" for r1 w0 and w1 :: "('n, 'x) browser_scheme"
    using that assms by (rule refresh_keeps_key)
  have tk: "localStorage w1 key = localStorage w0 key"
    if "retry_after_401 N e w0 = (r1, w1)" for r1 w0 and w1 :: "('n, 'x) browser_scheme"
    using that assms by (rule retry_keeps_key)
  have "localStorage w' key = localStorage w key"
    using playing_cases [OF g] by (auto dest!: rk tk)
  then show ?thesis by (simp add: g)
qed

lemma playing_dom:
  fixes w :: "('n, 'x) browser_scheme"
  shows "dom (localStorage w) \<subseteq> dom (localStorage (snd (getCurrentlyPlaying N e w)))"
proof -
  obtain r w' where g: "getCurrentlyPlaying N e w = (r, w')"
    by (cases "getCurrentlyPlaying N e w")
  have rk: "dom (localStorage w0) \<subseteq> dom (localStorage w1)"
    if "refreshAccessToken N e w0 = (r1, w1)" for r1 w0 and w1 :: "('n, 'x) browser_scheme"
    using that by (rule refresh_dom)
  have tk: "dom (localStorage w0) \<subseteq> dom (localStorage w1)"
    if "retry_after_401 N e w0 = (r1, w1)" for r1 w0 and w1 :: "('n, 'x) browser_scheme"
    using that by (rule retry_dom)
  have "dom (localStorage w) \<subseteq> dom (localStorage w')"
    using playing_cases [OF g] by (auto dest!: rk tk) blast+
  then show ?thesis by (simp add: g)
qed

text \<open>
  Claim C5. A refresh leaves the stored refresh token as it was, whatever the token
  endpoint answers, and so in particular when the response has no \<open>refresh_token\<close>:
  \<open>refreshAccessToken\<close> writes only the keys \<open>access_token\<close> and \<open>token_expiry\<close>. The
  same holds for \<open>getCurrentlyPlaying\<close>, which is where the refresh is called from.
\<close>

theorem refresh_token_carried_forward:
  "localStorage (snd (refreshAccessToken N e w)) ''refresh_token'' = localStorage w ''refresh_token''
   \<and> localStorage (snd (getCurrentlyPlaying N e w)) ''refresh_token'' = localStorage w ''refresh_token''"
proof -
  obtain r w' where g: "refreshAccessToken N e w = (r, w')"
    by (cases "refreshAccessToken N e w")
  have "localStorage w' ''refresh_token'' = localStorage w ''refresh_token''"
    using g by (rule refresh_keeps_key) simp_all
  moreover have "localStorage (snd (getCurrentlyPlaying N e w)) ''refresh_token''
                 = localStorage w ''refresh_token''"
    by (rule playing_keeps_key) simp_all
  ultimately show ?thesis by (simp add: g)
qed

subsection \<open>The token sent after a refresh\<close>

lemma playing_after_refresh:
  assumes tok: "localStorage w ''access_token'' = Some tok" "tok \<noteq> []"
    and nr: "needs_refresh N e w (localStorage w ''token_expiry'')"
    and rf: "refreshAccessToken N e w = (Inr newToken, w1)"
  shows "\<exists>xs. sent (snd (getCurrentlyPlaying N e w))
              = sent w @ [refresh_request (localStorage w ''refresh_token''), playing_request tok] @ xs"
proof -
  let ?req = "playing_request tok"
  let ?w2 = "w1\<lparr>sent := sent w1 @ [?req]\<rparr>"
  have s1: "sent w1 = sent w @ [refresh_request (localStorage w ''refresh_token'')]"
    using rf by (rule refresh_sent_ok)
  have s2: "sent ?w2 = sent w @ [refresh_request (localStorage w ''refresh_token''), ?req]"
    using s1 by simp
  have shape: "snd (getCurrentlyPlaying N e w) = ?w2
             \<or> snd (getCurrentlyPlaying N e w) = snd (retry_after_401 N e ?w2)"
    using tok nr rf
    by (auto simp: getCurrentlyPlaying_def Let_def axios_call_def opt_str_def
             split: sum.splits prod.splits)
  obtain r3 w3 where rt: "retry_after_401 N e ?w2 = (r3, w3)"
    by (cases "retry_after_401 N e ?w2")
  obtain ys where ys: "sent w3 = sent ?w2 @ ys"
    using retry_sent_prefix [OF rt] by blast
  from shape show ?thesis
  proof
    assume "snd (getCurrentlyPlaying N e w) = ?w2"
    then show ?thesis using s2 by simp
  next
    assume "snd (getCurrentlyPlaying N e w) = snd (retry_after_401 N e ?w2)"
    then have "sent (snd (getCurrentlyPlaying N e w)) = sent ?w2 @ ys"
      using rt ys by simp
    then show ?thesis using s2 by simp
  qed
qed

lemma playing_request_inject: "playing_request a = playing_request b \<Longrightarrow> a = b"
  by (simp add: playing_request_def)

text \<open>
  Claim C9. When the stored expiry instant has passed and the refresh it triggers
  succeeds, the refresh stores the new access token, and the currently-playing
  request that follows the refresh carries the access token read from storage before
  the refresh: the first requests of the call are the refresh request and then the
  request with the old token, which is not the request with the new token when the
  two tokens differ.
\<close>

theorem stale_token_after_refresh:
  assumes "localStorage w ''access_token'' = Some tok" and "tok \<noteq> []"
    and "needs_refresh N e w (localStorage w ''token_expiry'')"
    and "fst (refreshAccessToken N e w) = Inr newToken"
  shows "take (length (sent w) + 2) (sent (snd (getCurrentlyPlaying N e w)))
           = sent w @ [refresh_request (localStorage w ''refresh_token''), playing_request tok]
       \<and> localStorage (snd (refreshAccessToken N e w)) ''access_token'' = Some (to_string N newToken)
       \<and> (to_string N newToken \<noteq> tok \<longrightarrow>
            sent (snd (getCurrentlyPlaying N e w)) ! (length (sent w) + 1)
              \<noteq> playing_request (to_string N newToken))"
proof -
  obtain w1 where rf: "refreshAccessToken N e w = (Inr newToken, w1)"
    using assms(4) by (cases "refreshAccessToken N e w") simp
  obtain xs where xs: "sent (snd (getCurrentlyPlaying N e w))
      = sent w @ [refresh_request (localStorage w ''refresh_token''), playing_request tok] @ xs"
    using playing_after_refresh [OF assms(1,2,3) rf] by blast
  have a: "take (length (sent w) + 2) (sent (snd (getCurrentlyPlaying N e w)))
           = sent w @ [refresh_request (localStorage w ''refresh_token''), playing_request tok]"
    by (simp add: xs)
  have b: "localStorage (snd (refreshAccessToken N e w)) ''access_token'' = Some (to_string N newToken)"
    using refresh_stores_token [OF rf] by (simp add: rf)
  have "sent (snd (getCurrentlyPlaying N e w)) ! (length (sent w) + 1) = playing_request tok"
    by (simp add: xs nth_append)
  then have c: "to_string N newToken \<noteq> tok \<longrightarrow>
            sent (snd (getCurrentlyPlaying N e w)) ! (length (sent w) + 1)
              \<noteq> playing_request (to_string N newToken)"
    using playing_request_inject by auto
  from a b c show ?thesis by blast
qed

lemma needs_refresh_example:
  "needs_refresh int_numbers env_rejects_AT0 browser_AT0_expired (localStorage browser_AT0_expired ''token_expiry'')"
  by (simp add: needs_refresh_def browser_AT0_expired_def env_rejects_AT0_def Date_now_def opt_str_def
        int_numbers_def int_parseInt_def Let_def is_space_def is_digit_in_def digit_value_def
        digits_value_def int_gt_def)

lemma refresh_example:
  "fst (refreshAccessToken int_numbers env_rejects_AT0 browser_AT0_expired) = Inr (JStr ''AT1'')"
  by (simp add: refreshAccessToken_def browser_AT0_expired_def env_rejects_AT0_def Let_def
        axios_call_def refresh_request_def axios_def and_then_def)

text \<open>
  Witness for C9: the stored token \<open>AT0\<close> has expired and the refresh returns \<open>AT1\<close>;
  the request after the refresh still carries \<open>AT0\<close>.
\<close>

theorem stale_token_after_refresh_witness:
  "localStorage browser_AT0_expired ''access_token'' = Some ''AT0''
   \<and> needs_refresh int_numbers env_rejects_AT0 browser_AT0_expired (localStorage browser_AT0_expired ''token_expiry'')
   \<and> fst (refreshAccessToken int_numbers env_rejects_AT0 browser_AT0_expired) = Inr (JStr ''AT1'')
   \<and> take 2 (sent (snd (getCurrentlyPlaying int_numbers env_rejects_AT0 browser_AT0_expired)))
        = [refresh_request (Some ''RT0''), playing_request ''AT0'']
   \<and> localStorage (snd (refreshAccessToken int_numbers env_rejects_AT0 browser_AT0_expired)) ''access_token''
        = Some ''AT1''
   \<and> sent (snd (getCurrentlyPlaying int_numbers env_rejects_AT0 browser_AT0_expired)) ! 1
        \<noteq> playing_request ''AT1''"
proof -
  have t: "localStorage browser_AT0_expired ''access_token'' = Some ''AT0''"
    and r: "localStorage browser_AT0_expired ''refresh_token'' = Some ''RT0''"
    and s: "sent browser_AT0_expired = []"
    by (simp_all add: browser_AT0_expired_def)
  have ne: "''AT0'' \<noteq> []" by simp
  show ?thesis
    using stale_token_after_refresh [OF t ne needs_refresh_example refresh_example]
      t needs_refresh_example refresh_example
    by (simp add: r s numeral_2_eq_2)
qed

subsection \<open>A protected call that returns 401\<close>

text \<open>
  Claim C1, as stated, fails for \<open>getCurrentlyPlaying\<close> (utils/spotify.ts): when the
  provider rejects the stored token with 401, the client refreshes the token and sends
  the protected request again with the new one, and the access token and the verifier
  are still in storage afterwards.
\<close>

theorem unauthorized_retry_counterexample:
  "sent (snd (getCurrentlyPlaying int_numbers env_rejects_AT0 browser_AT0))
     = [playing_request ''AT0'', refresh_request (Some ''RT0''), playing_request ''AT1'']
   \<and> localStorage (snd (getCurrentlyPlaying int_numbers env_rejects_AT0 browser_AT0)) ''access_token'' = Some ''AT1''
   \<and> localStorage (snd (getCurrentlyPlaying int_numbers env_rejects_AT0 browser_AT0)) ''code_verifier'' = Some ''V1''"
  by (simp add: getCurrentlyPlaying_def browser_AT0_def env_rejects_AT0_def Let_def needs_refresh_def
        axios_call_def axios_def playing_request_def opt_str_def is_401_def retry_after_401_def
        refreshAccessToken_def refresh_request_def and_then_def setItem_def
        SPOTIFY_API_URL_def BACKEND_URL_def)

lemma validate_401:
  assumes "truthy_str token"
    and "fetch (length (sent s)) (track_request backend (opt_str token)) = FetchResponse 401 ct body"
  shows "validateAndFetchTrack N backend fetch token s
         = finally_loaded (clearAuth (s\<lparr>sent := sent s @ [track_request backend (opt_str token)]\<rparr>))"
  using assms by (simp add: validateAndFetchTrack_def Let_def)

text \<open>Any other failure status of the backend also ends in \<open>clearAuth\<close>, with the
  request sent once.\<close>

lemma validate_failure_status:
  assumes "truthy_str token"
    and "fetch (length (sent s)) (track_request backend (opt_str token)) = FetchResponse st ct body"
    and "st \<noteq> 204" "\<not> ok st"
  shows "validateAndFetchTrack N backend fetch token s
         = finally_loaded (clearAuth (s\<lparr>sent := sent s @ [track_request backend (opt_str token)]\<rparr>))"
  using assms by (simp add: validateAndFetchTrack_def Let_def)

text \<open>\<open>getCurrentlyPlaying\<close> does not touch \<open>sessionStorage\<close>.\<close>

lemma refresh_sessionStorage:
  assumes "refreshAccessToken N e w = (r, w')"
  shows "sessionStorage w' = sessionStorage w"
  using assms
  by (auto simp: refreshAccessToken_def Let_def axios_call_def setItem_def
           split: sum.splits prod.splits if_splits)

lemma retry_sessionStorage:
  assumes "retry_after_401 N e w = (r, w')"
  shows "sessionStorage w' = sessionStorage w"
proof (cases "refreshAccessToken N e w")
  case (Pair r1 w1)
  have k: "sessionStorage w1 = sessionStorage w"
    using refresh_sessionStorage [OF Pair] .
  show ?thesis
    using assms(1) Pair k
    by (auto simp: retry_after_401_def axios_call_def split: sum.splits prod.splits)
qed

lemma playing_sessionStorage:
  fixes w :: "('n, 'x) browser_scheme"
  shows "sessionStorage (snd (getCurrentlyPlaying N e w)) = sessionStorage w"
proof -
  obtain r w' where g: "getCurrentlyPlaying N e w = (r, w')"
    by (cases "getCurrentlyPlaying N e w")
  have rk: "sessionStorage w1 = sessionStorage w0"
    if "refreshAccessToken N e w0 = (r1, w1)" for r1 w0 and w1 :: "('n, 'x) browser_scheme"
    using that by (rule refresh_sessionStorage)
  have tk: "sessionStorage w1 = sessionStorage w0"
    if "retry_after_401 N e w0 = (r1, w1)" for r1 w0 and w1 :: "('n, 'x) browser_scheme"
    using that by (rule retry_sessionStorage)
  have "sessionStorage w' = sessionStorage w"
    using playing_cases [OF g] by (auto dest!: rk tk)
  then show ?thesis by (simp add: g)
qed

text \<open>
  The 401 branch of \<open>getCurrentlyPlaying\<close>. \<open>w1\<close> is the state in which the protected
  request is sent: the state of the call when no refresh is due, and the state after
  the refresh when one is due and succeeds.
\<close>

lemma playing_401:
  assumes tok: "localStorage w ''access_token'' = Some tok" "tok \<noteq> []"
    and pre: "(\<not> needs_refresh N e w (localStorage w ''token_expiry'') \<and> w1 = w)
            \<or> (needs_refresh N e w (localStorage w ''token_expiry'')
                \<and> refreshAccessToken N e w = (Inr v, w1))"
    and rep: "net e (length (sent w1)) (playing_request tok) = Reply 401 d"
  shows "getCurrentlyPlaying N e w
         = retry_after_401 N e (w1\<lparr>sent := sent w1 @ [playing_request tok]\<rparr>)"
  using pre
proof
  assume "\<not> needs_refresh N e w (localStorage w ''token_expiry'') \<and> w1 = w"
  then show ?thesis
    using tok rep
    by (simp add: getCurrentlyPlaying_def Let_def axios_call_def axios_def opt_str_def is_401_def)
next
  assume "needs_refresh N e w (localStorage w ''token_expiry'')
          \<and> refreshAccessToken N e w = (Inr v, w1)"
  then show ?thesis
    using tok rep
    by (simp add: getCurrentlyPlaying_def Let_def axios_call_def axios_def opt_str_def is_401_def)
qed

lemma retry_outcome:
  "case refreshAccessToken N e w2 of
     (Inl err, w3) \<Rightarrow> retry_after_401 N e w2 = (Inl err, w3)
   | (Inr newToken, w3) \<Rightarrow>
       sent (snd (retry_after_401 N e w2))
         = sent w2 @ [refresh_request (localStorage w2 ''refresh_token''),
                      playing_request (to_string N newToken)]
     \<and> fst (retry_after_401 N e w2)
         = (case axios (net e (length (sent w2) + 1) (playing_request (to_string N newToken))) of
              Inl err \<Rightarrow> Inl err
            | Inr (st, data) \<Rightarrow> Inr data)"
proof (cases "refreshAccessToken N e w2")
  case (Pair r w3)
  show ?thesis
  proof (cases r)
    case (Inl err)
    then show ?thesis using Pair by (simp add: retry_after_401_def)
  next
    case (Inr newToken)
    have s3: "sent w3 = sent w2 @ [refresh_request (localStorage w2 ''refresh_token'')]"
      using Pair Inr refresh_sent_ok [of N e w2 newToken w3] by simp
    show ?thesis
      using Pair Inr s3
      by (simp add: retry_after_401_def axios_call_def split: sum.splits prod.splits)
  qed
qed

text \<open>
  Claim C1, amended. In App.tsx, a call of \<open>validateAndFetchTrack\<close> whose request to
  \<open>/current-track\<close> returns 401 always leaves the client in the Invalid state, whatever
  the state before: the access token is removed from \<open>localStorage\<close>, the verifier from
  \<open>sessionStorage\<close>, \<open>accessToken\<close> and \<open>track\<close> are \<open>null\<close>, \<open>isAuthenticated\<close> is false,
  and the request was sent once, with no retry.

  In utils/spotify.ts, \<open>getCurrentlyPlaying\<close> removes no key from \<open>localStorage\<close>
  (it writes only \<open>access_token\<close> and \<open>token_expiry\<close>) and leaves \<open>sessionStorage\<close>
  as it is, whatever happens. When its protected request
  returns 401 (sent from the state \<open>w1\<close>: the state of the call, or the state after
  the refresh that a passed expiry triggers first), it refreshes the token; if that
  refresh fails, its error is thrown and nothing more is sent; if it succeeds, the
  protected request is sent once more, with the new token, and the outcome of that
  request is the outcome of the call.
\<close>

theorem unauthorized_handling:
  fixes w w1 :: "('n, 'x) browser_scheme"
  shows
  "(truthy_str token
      \<and> fetch (length (sent s)) (track_request backend (opt_str token)) = FetchResponse 401 ct body
    \<longrightarrow> localStorage (validateAndFetchTrack N backend fetch token s)
            = (localStorage s)(''spotify_access_token'' := None)
        \<and> sessionStorage (validateAndFetchTrack N backend fetch token s)
            = (sessionStorage s)(''spotify_code_verifier'' := None)
        \<and> accessToken (validateAndFetchTrack N backend fetch token s) = None
        \<and> isAuthenticated (validateAndFetchTrack N backend fetch token s) = False
        \<and> track (validateAndFetchTrack N backend fetch token s) = None
        \<and> sent (validateAndFetchTrack N backend fetch token s)
            = sent s @ [track_request backend (opt_str token)])
   \<and> dom (localStorage w) \<subseteq> dom (localStorage (snd (getCurrentlyPlaying N e w)))
   \<and> (key \<noteq> ''access_token'' \<and> key \<noteq> ''token_expiry''
      \<longrightarrow> localStorage (snd (getCurrentlyPlaying N e w)) key = localStorage w key)
   \<and> sessionStorage (snd (getCurrentlyPlaying N e w)) = sessionStorage w
   \<and> (localStorage w ''access_token'' = Some tok \<and> tok \<noteq> []
      \<and> ((\<not> needs_refresh N e w (localStorage w ''token_expiry'') \<and> w1 = w)
          \<or> (needs_refresh N e w (localStorage w ''token_expiry'')
              \<and> refreshAccessToken N e w = (Inr v, w1)))
      \<and> net e (length (sent w1)) (playing_request tok) = Reply 401 d
    \<longrightarrow> (case refreshAccessToken N e (w1\<lparr>sent := sent w1 @ [playing_request tok]\<rparr>) of
           (Inl err, w3) \<Rightarrow> getCurrentlyPlaying N e w = (Inl err, w3)
         | (Inr newToken, w3) \<Rightarrow>
             sent (snd (getCurrentlyPlaying N e w))
               = sent w1 @ [playing_request tok,
                            refresh_request (localStorage w ''refresh_token''),
                            playing_request (to_string N newToken)]
           \<and> fst (getCurrentlyPlaying N e w)
               = (case axios (net e (length (sent w1) + 2) (playing_request (to_string N newToken))) of
                    Inl err \<Rightarrow> Inl err
                  | Inr (st, data) \<Rightarrow> Inr data)))"
proof (intro conjI impI)
  assume a: "truthy_str token
      \<and> fetch (length (sent s)) (track_request backend (opt_str token)) = FetchResponse 401 ct body"
  let ?s' = "validateAndFetchTrack N backend fetch token s"
  have v: "?s' = finally_loaded (clearAuth (s\<lparr>sent := sent s @ [track_request backend (opt_str token)]\<rparr>))"
    using a by (simp add: validate_401)
  show "localStorage ?s' = (localStorage s)(''spotify_access_token'' := None)"
    by (simp add: v finally_loaded_def clearAuth_def)
  show "sessionStorage ?s' = (sessionStorage s)(''spotify_code_verifier'' := None)"
    by (simp add: v finally_loaded_def clearAuth_def)
  show "accessToken ?s' = None"
    by (simp add: v finally_loaded_def clearAuth_def)
  show "isAuthenticated ?s' = False"
    by (simp add: v finally_loaded_def clearAuth_def)
  show "track ?s' = None"
    by (simp add: v finally_loaded_def clearAuth_def)
  show "sent ?s' = sent s @ [track_request backend (opt_str token)]"
    by (simp add: v finally_loaded_def clearAuth_def)
next
  show "dom (localStorage w) \<subseteq> dom (localStorage (snd (getCurrentlyPlaying N e w)))"
    by (rule playing_dom)
next
  assume "key \<noteq> ''access_token'' \<and> key \<noteq> ''token_expiry''"
  then show "localStorage (snd (getCurrentlyPlaying N e w)) key = localStorage w key"
    using playing_keeps_key [of key N e w] by blast
next
  show "sessionStorage (snd (getCurrentlyPlaying N e w)) = sessionStorage w"
    by (rule playing_sessionStorage)
next
  assume b: "localStorage w ''access_token'' = Some tok \<and> tok \<noteq> []
      \<and> ((\<not> needs_refresh N e w (localStorage w ''token_expiry'') \<and> w1 = w)
          \<or> (needs_refresh N e w (localStorage w ''token_expiry'')
              \<and> refreshAccessToken N e w = (Inr v, w1)))
      \<and> net e (length (sent w1)) (playing_request tok) = Reply 401 d"
  let ?w2 = "w1\<lparr>sent := sent w1 @ [playing_request tok]\<rparr>"
  have g: "getCurrentlyPlaying N e w = retry_after_401 N e ?w2"
    using b playing_401 [of w tok N e w1 v d] by blast
  have "localStorage w1 ''refresh_token'' = localStorage w ''refresh_token''"
    using b refresh_keeps_key [of N e w "Inr v" w1 "''refresh_token''"] by auto
  then have k: "localStorage ?w2 ''refresh_token'' = localStorage w ''refresh_token''"
    by simp
  show "case refreshAccessToken N e ?w2 of
           (Inl err, w3) \<Rightarrow> getCurrentlyPlaying N e w = (Inl err, w3)
         | (Inr newToken, w3) \<Rightarrow>
             sent (snd (getCurrentlyPlaying N e w))
               = sent w1 @ [playing_request tok,
                            refresh_request (localStorage w ''refresh_token''),
                            playing_request (to_string N newToken)]
           \<and> fst (getCurrentlyPlaying N e w)
               = (case axios (net e (length (sent w1) + 2) (playing_request (to_string N newToken))) of
                    Inl err \<Rightarrow> Inl err
                  | Inr (st, data) \<Rightarrow> Inr data)"
    using retry_outcome [of N e ?w2] k
    by (simp add: g split: prod.splits sum.splits)
qed

lemma no_refresh_example:
  "\<not> needs_refresh int_numbers env_rejects_AT0 browser_AT0 (localStorage browser_AT0 ''token_expiry'')"
  by (simp add: needs_refresh_def browser_AT0_def)

lemma rejected_example:
  "net env_rejects_AT0 k (playing_request ''AT0'')
   = Reply 401 (JObj [(''error'', JStr ''The access token expired'')])"
  by (simp add: env_rejects_AT0_def playing_request_def)

lemma refresh_expired_example:
  "refreshAccessToken int_numbers env_rejects_AT0 browser_AT0_expired
   = (Inr (JStr ''AT1''), browser_AT0_refreshed)"
  by (simp add: refreshAccessToken_def browser_AT0_refreshed_def browser_AT0_expired_def
        env_rejects_AT0_def Let_def axios_call_def refresh_request_def axios_def and_then_def
        setItem_def Date_now_def int_numbers_def int_add_def int_mul_def int_toString_def
        show_int_def show_nat.simps digits10_def)

lemma refresh_after_401_examples:
  "refreshAccessToken int_numbers env_rejects_AT0
     (browser_AT0\<lparr>sent := [playing_request ''AT0'']\<rparr>)
   = (Inr (JStr ''AT1''),
      browser_AT0
        \<lparr>localStorage := (localStorage browser_AT0)
                           (''access_token'' \<mapsto> ''AT1'', ''token_expiry'' \<mapsto> ''3605000''),
         sent := [playing_request ''AT0'', refresh_request (Some ''RT0'')]\<rparr>)"
  "refreshAccessToken int_numbers env_rejects_AT0
     (browser_AT0_refreshed\<lparr>sent := [refresh_request (Some ''RT0''), playing_request ''AT0'']\<rparr>)
   = (Inr (JStr ''AT1''),
      browser_AT0_refreshed
        \<lparr>localStorage := (localStorage browser_AT0_refreshed)
                           (''access_token'' \<mapsto> ''AT1'', ''token_expiry'' \<mapsto> ''3605000''),
         sent := [refresh_request (Some ''RT0''), playing_request ''AT0'',
                  refresh_request (Some ''RT0'')]\<rparr>)"
  by (simp_all add: refreshAccessToken_def browser_AT0_refreshed_def browser_AT0_expired_def
        browser_AT0_def env_rejects_AT0_def Let_def axios_call_def refresh_request_def axios_def
        and_then_def setItem_def Date_now_def int_numbers_def int_add_def int_mul_def
        int_toString_def show_int_def show_nat.simps digits10_def)

text \<open>
  Witness for C1: the component showing a track receives 401 from the backend; the
  client of utils/spotify.ts holds the rejected token \<open>AT0\<close>, once with no expiry
  recorded and once with an expiry that has passed.
\<close>

theorem unauthorized_handling_witness:
  "truthy_str (Some ''AT1'')
   \<and> fetch_401 (length (sent app_playing)) (track_request ''http://localhost:3000'' ''AT1'')
       = FetchResponse 401 (Some ''application/json'') (Some (JObj [(''error'', JStr ''No token provided'')]))
   \<and> localStorage (validateAndFetchTrack int_numbers ''http://localhost:3000'' fetch_401 (Some ''AT1'') app_playing)
        ''spotify_access_token'' = None
   \<and> sessionStorage (validateAndFetchTrack int_numbers ''http://localhost:3000'' fetch_401 (Some ''AT1'') app_playing)
        ''spotify_code_verifier'' = None
   \<and> accessToken (validateAndFetchTrack int_numbers ''http://localhost:3000'' fetch_401 (Some ''AT1'') app_playing) = None
   \<and> isAuthenticated (validateAndFetchTrack int_numbers ''http://localhost:3000'' fetch_401 (Some ''AT1'') app_playing) = False
   \<and> track (validateAndFetchTrack int_numbers ''http://localhost:3000'' fetch_401 (Some ''AT1'') app_playing) = None
   \<and> sent (validateAndFetchTrack int_numbers ''http://localhost:3000'' fetch_401 (Some ''AT1'') app_playing)
        = [track_request ''http://localhost:3000'' ''AT1'']
   \<and> localStorage browser_AT0 ''access_token'' = Some ''AT0''
   \<and> sent (snd (getCurrentlyPlaying int_numbers env_rejects_AT0 browser_AT0))
        = [playing_request ''AT0'', refresh_request (Some ''RT0''), playing_request ''AT1'']
   \<and> fst (getCurrentlyPlaying int_numbers env_rejects_AT0 browser_AT0) = Inr payload_no_images
   \<and> sessionStorage (snd (getCurrentlyPlaying int_numbers env_rejects_AT0 browser_AT0))
        ''spotify_code_verifier'' = Some ''V1''
   \<and> localStorage browser_AT0_expired ''access_token'' = Some ''AT0''
   \<and> needs_refresh int_numbers env_rejects_AT0 browser_AT0_expired
        (localStorage browser_AT0_expired ''token_expiry'')
   \<and> sent (snd (getCurrentlyPlaying int_numbers env_rejects_AT0 browser_AT0_expired))
        = [refresh_request (Some ''RT0''), playing_request ''AT0'',
           refresh_request (Some ''RT0''), playing_request ''AT1'']
   \<and> fst (getCurrentlyPlaying int_numbers env_rejects_AT0 browser_AT0_expired) = Inr payload_no_images
   \<and> sessionStorage (snd (getCurrentlyPlaying int_numbers env_rejects_AT0 browser_AT0_expired))
        ''spotify_code_verifier'' = Some ''V1''"
proof -
  have t: "truthy_str (Some ''AT1'')" by simp
  have f: "fetch_401 (length (sent app_playing)) (track_request ''http://localhost:3000'' (opt_str (Some ''AT1'')))
       = FetchResponse 401 (Some ''application/json'') (Some (JObj [(''error'', JStr ''No token provided'')]))"
    by simp
  have o: "opt_str (Some ''AT1'') = ''AT1''" by (simp add: opt_str_def)
  have a: "localStorage browser_AT0 ''access_token'' = Some ''AT0''"
    and r: "localStorage browser_AT0 ''refresh_token'' = Some ''RT0''"
    and s: "sent browser_AT0 = []" "sent app_playing = []"
    and v: "sessionStorage browser_AT0 ''spotify_code_verifier'' = Some ''V1''"
    by (simp_all add: browser_AT0_def app_playing_def)
  have a': "localStorage browser_AT0_expired ''access_token'' = Some ''AT0''"
    and r': "localStorage browser_AT0_expired ''refresh_token'' = Some ''RT0''"
    and s': "sent browser_AT0_refreshed = [refresh_request (Some ''RT0'')]"
    and v': "sessionStorage browser_AT0_expired ''spotify_code_verifier'' = Some ''V1''"
    by (simp_all add: browser_AT0_expired_def browser_AT0_refreshed_def)
  have ne: "''AT0'' \<noteq> []" by simp
  have ok: "axios (net env_rejects_AT0 k (playing_request ''AT1'')) = Inr (200, payload_no_images)" for k
    by (simp add: env_rejects_AT0_def playing_request_def axios_def)
  note app = unauthorized_handling [of "Some ''AT1''" fetch_401 app_playing "''http://localhost:3000''"
        "Some ''application/json''" "Some (JObj [(''error'', JStr ''No token provided'')])"
        int_numbers browser_AT0 env_rejects_AT0 "''k''" "''AT0''" browser_AT0 "JUndefined"
        "JObj [(''error'', JStr ''The access token expired'')]"]
  note exp = unauthorized_handling [of "Some ''AT1''" fetch_401 app_playing "''http://localhost:3000''"
        "Some ''application/json''" "Some (JObj [(''error'', JStr ''No token provided'')])"
        int_numbers browser_AT0_expired env_rejects_AT0 "''k''" "''AT0''" browser_AT0_refreshed
        "JStr ''AT1''" "JObj [(''error'', JStr ''The access token expired'')]"]
  show ?thesis
    using app exp t f a a' ne no_refresh_example needs_refresh_example refresh_expired_example
      rejected_example
    by (simp add: o r r' s s' v v' ok refresh_after_401_examples)
qed

end
